theory Spec2Isabelle
  imports Main "HOL-Library.Word"
begin

unbundle bit_operations_syntax

section \<open>Credential and session subsystem of Arecanut Manager Pro\<close>

text \<open>
  A shallow embedding of \<^verbatim>\<open>backend/services/crypto.js\<close>, \<^verbatim>\<open>backend/models/Session.js\<close>,
  the authentication middleware and the session-related handlers of
  \<^verbatim>\<open>backend/controllers/authController.js\<close>.

  Conventions. Time is the millisecond count of \<^verbatim>\<open>Date.now()\<close>, an \<open>int\<close>; every
  handler reads the clock once (the argument \<open>now\<close>). The session collection is a list of
  records in insertion order; \<^verbatim>\<open>findOne\<close> returns the first match. A JavaScript string
  is the list of its UTF-8 bytes (\<open>string\<close>); a \<^verbatim>\<open>Buffer\<close> is a list of 8-bit words.
\<close>

type_synonym byte = "8 word"
type_synonym bytes = "byte list"

subsection \<open>Buffers and strings\<close>

definition utf8 :: "string \<Rightarrow> bytes" where
  "utf8 s = map (\<lambda>c. word_of_nat (of_char c)) s"

definition fromUtf8 :: "bytes \<Rightarrow> string" where
  "fromUtf8 b = map (\<lambda>w. char_of (unat w)) b"

text \<open>\<^verbatim>\<open>buf.slice(a, b)\<close> for \<open>a \<le> b\<close>; a slice past the end is cut short.\<close>

definition slice :: "bytes \<Rightarrow> nat \<Rightarrow> nat \<Rightarrow> bytes" where
  "slice buf a b = take (b - a) (drop a buf)"

definition writeUInt16BE :: "nat \<Rightarrow> bytes" where
  "writeUInt16BE n = [word_of_nat (n div 256), word_of_nat (n mod 256)]"

text \<open>\<^verbatim>\<open>buf.readUInt16BE(off)\<close>; the callers read inside the buffer.\<close>

definition readUInt16BE :: "bytes \<Rightarrow> nat \<Rightarrow> nat" where
  "readUInt16BE buf off = 256 * unat (buf ! off) + unat (buf ! (off + 1))"

text \<open>\<^verbatim>\<open>crypto.timingSafeEqual\<close> throws on buffers of different length (\<open>None\<close>).\<close>

definition timingSafeEqual :: "bytes \<Rightarrow> bytes \<Rightarrow> bool option" where
  "timingSafeEqual a b = (if length a \<noteq> length b then None else Some (a = b))"

definition hexChar :: "nat \<Rightarrow> char" where
  "hexChar n = ''0123456789abcdef'' ! n"

text \<open>\<^verbatim>\<open>buf.toString('hex')\<close>: two lower-case digits for each byte.\<close>

definition toHex :: "bytes \<Rightarrow> string" where
  "toHex b = concat (map (\<lambda>w. [hexChar (unat w div 16), hexChar (unat w mod 16)]) b)"

definition hexDigit :: "char \<Rightarrow> nat option" where
  "hexDigit c =
     (let n = (of_char c :: nat) in
      if 48 \<le> n \<and> n \<le> 57 then Some (n - 48)
      else if 97 \<le> n \<and> n \<le> 102 then Some (n - 87)
      else if 65 \<le> n \<and> n \<le> 70 then Some (n - 55)
      else None)"

text \<open>\<^verbatim>\<open>Buffer.from(s, 'hex')\<close>: pairs of digits are decoded until the first pair that is
  not hexadecimal; a trailing single character is dropped.\<close>

fun fromHex :: "string \<Rightarrow> bytes" where
  "fromHex (a # b # cs) =
     (case (hexDigit a, hexDigit b) of
        (Some h, Some l) \<Rightarrow> word_of_nat (16 * h + l) # fromHex cs
      | _ \<Rightarrow> [])"
| "fromHex _ = []"

text \<open>\<^verbatim>\<open>s.split(c)\<close> for a one-character separator: never the empty array.\<close>

fun splitOn :: "char \<Rightarrow> string \<Rightarrow> string list" where
  "splitOn c [] = [[]]"
| "splitOn c (x # xs) =
     (if x = c then [] # splitOn c xs
      else case splitOn c xs of
             p # ps \<Rightarrow> (x # p) # ps
           | [] \<Rightarrow> [[x]])"

definition startsWith :: "string \<Rightarrow> string \<Rightarrow> bool" where
  "startsWith s p \<longleftrightarrow> take (length p) s = p"

text \<open>\<^verbatim>\<open>s.includes(p)\<close>.\<close>

fun includesStr :: "string \<Rightarrow> string \<Rightarrow> bool" where
  "includesStr [] p = (p = [])"
| "includesStr (c # cs) p = (startsWith (c # cs) p \<or> includesStr cs p)"

text \<open>\<^verbatim>\<open>header.replace('Bearer ', '')\<close>: the first occurrence of the pattern is removed.\<close>

fun removeFirst :: "string \<Rightarrow> string \<Rightarrow> string" where
  "removeFirst p [] = []"
| "removeFirst p (c # cs) =
     (if startsWith (c # cs) p then drop (length p) (c # cs) else c # removeFirst p cs)"

text \<open>JavaScript's \<^verbatim>\<open>v || d\<close> on an optional string, number or array: \<^verbatim>\<open>undefined\<close>, the
  empty string and 0 give the default; every array is truthy.\<close>

definition orString :: "string option \<Rightarrow> string \<Rightarrow> string" where
  "orString v d = (case v of None \<Rightarrow> d | Some s \<Rightarrow> if s = [] then d else s)"

definition orNumber :: "nat option \<Rightarrow> nat \<Rightarrow> nat" where
  "orNumber v d = (case v of None \<Rightarrow> d | Some n \<Rightarrow> if n = 0 then d else n)"

definition orArray :: "'a list option \<Rightarrow> 'a list \<Rightarrow> 'a list" where
  "orArray v d = (case v of None \<Rightarrow> d | Some xs \<Rightarrow> xs)"

subsection \<open>Randomness\<close>

text \<open>The operating system's random source is a stream of bytes; \<^verbatim>\<open>crypto.randomBytes(n)\<close>
  takes the next \<open>n\<close> of them and leaves the rest.\<close>

type_synonym entropy = "nat \<Rightarrow> byte"

definition randomBytes :: "nat \<Rightarrow> entropy \<Rightarrow> bytes \<times> entropy" where
  "randomBytes n rng = (map rng [0..<n], \<lambda>i. rng (i + n))"

subsection \<open>Key-file payload and token claims\<close>

record key_payload =
  kp_userId :: string
  kp_username :: string
  kp_email :: string
  kp_role :: string
  kp_deviceLimit :: nat
  kp_createdAt :: string
  kp_expiresAt :: string
  kp_permissions :: "string list"
  kp_keyId :: string
  kp_version :: string

text \<open>The argument of \<open>generateKeyFile\<close>. A property the caller leaves out is \<open>None\<close>.
  \<open>ud_keyId\<close> stands for a \<^verbatim>\<open>keyId\<close> property a caller might add to the object.\<close>

record user_data =
  ud_userId :: string
  ud_username :: string
  ud_email :: "string option"
  ud_role :: "string option"
  ud_deviceLimit :: "nat option"
  ud_expiresAt :: "string option"
  ud_permissions :: "string list option"
  ud_keyId :: "string option"

record session_data =
  sd_userId :: string
  sd_username :: string
  sd_role :: string
  sd_permissions :: "string list"
  sd_deviceFingerprint :: string

record token_claims =
  tc_userId :: string
  tc_username :: string
  tc_role :: string
  tc_permissions :: "string list"
  tc_deviceFingerprint :: string
  tc_iat :: int
  tc_exp :: int
  tc_neverExpires :: bool
  tc_jti :: string

subsection \<open>The platform: Node's \<^verbatim>\<open>crypto\<close>, \<^verbatim>\<open>JSON\<close>, \<^verbatim>\<open>Date\<close> and \<^verbatim>\<open>Buffer\<close> encodings\<close>

text \<open>
  The library functions the code calls are not part of the repository; they are the fields
  of a record that every function of the model takes as its first argument.
  \<^item> \<open>pbkdf2Sync password salt iterations keylen\<close> (digest SHA-512), \<open>scryptSync password salt keylen\<close>,
    \<open>hmacSha256 key data\<close>, \<open>sha256 data\<close>.
  \<^item> AES-256-GCM by its structure: \<open>gcmCtr key iv\<close> is the counter-mode transformation, used
    for both directions, and \<open>gcmTag key iv ciphertext\<close> the authentication tag of a
    ciphertext. Decryption recomputes the tag and throws unless it equals the given one.
  \<^item> \<open>uuidFormat\<close> turns the 16 random bytes of \<^verbatim>\<open>crypto.randomUUID()\<close> into text.
  \<^item> \<^verbatim>\<open>JSON.stringify\<close> and \<^verbatim>\<open>JSON.parse\<close> on the three object shapes the code serialises;
    parsing gives \<open>None\<close> where \<^verbatim>\<open>JSON.parse\<close> throws.
  \<^item> \<open>dateParse\<close> is \<^verbatim>\<open>new Date(string).getTime()\<close>, \<open>None\<close> for an invalid date;
    \<open>toISOString\<close> is \<^verbatim>\<open>new Date(ms).toISOString()\<close>.
  \<^item> \<open>base64Decode\<close>, \<open>base64urlEncode\<close>, \<open>base64urlDecode\<close>: \<^verbatim>\<open>Buffer\<close>'s transport encodings.
\<close>

record platform =
  MASTER_KEY :: string
  pbkdf2Sync :: "bytes \<Rightarrow> bytes \<Rightarrow> nat \<Rightarrow> nat \<Rightarrow> bytes"
  scryptSync :: "bytes \<Rightarrow> bytes \<Rightarrow> nat \<Rightarrow> bytes"
  hmacSha256 :: "bytes \<Rightarrow> bytes \<Rightarrow> bytes"
  sha256 :: "bytes \<Rightarrow> bytes"
  gcmCtr :: "bytes \<Rightarrow> bytes \<Rightarrow> bytes \<Rightarrow> bytes"
  gcmTag :: "bytes \<Rightarrow> bytes \<Rightarrow> bytes \<Rightarrow> bytes"
  uuidFormat :: "bytes \<Rightarrow> string"
  stringifyPayload :: "key_payload \<Rightarrow> string"
  parsePayload :: "string \<Rightarrow> key_payload option"
  stringifyClaims :: "token_claims \<Rightarrow> string"
  parseClaims :: "string \<Rightarrow> token_claims option"
  stringifyDevice :: "string \<Rightarrow> string \<Rightarrow> string \<Rightarrow> string \<Rightarrow> string \<Rightarrow> string"
  dateParse :: "string \<Rightarrow> int option"
  toISOString :: "int \<Rightarrow> string"
  base64Decode :: "string \<Rightarrow> bytes"
  base64urlEncode :: "bytes \<Rightarrow> string"
  base64urlDecode :: "string \<Rightarrow> bytes"

definition randomUUID :: "platform \<Rightarrow> entropy \<Rightarrow> string \<times> entropy" where
  "randomUUID P rng = (case randomBytes 16 rng of (b, rng') \<Rightarrow> (uuidFormat P b, rng'))"

text \<open>\<^verbatim>\<open>createCipheriv\<close> \<^verbatim>\<open>update\<close>, \<^verbatim>\<open>final\<close>, \<^verbatim>\<open>getAuthTag\<close>, and \<^verbatim>\<open>createDecipheriv\<close>
  \<^verbatim>\<open>setAuthTag\<close>, \<^verbatim>\<open>update\<close>, \<^verbatim>\<open>final\<close>; \<open>None\<close> is the exception of \<^verbatim>\<open>final\<close>.\<close>

definition gcmEncrypt :: "platform \<Rightarrow> bytes \<Rightarrow> bytes \<Rightarrow> bytes \<Rightarrow> bytes \<times> bytes" where
  "gcmEncrypt P key iv plain =
     (let encrypted = gcmCtr P key iv plain in (encrypted, gcmTag P key iv encrypted))"

definition gcmDecrypt :: "platform \<Rightarrow> bytes \<Rightarrow> bytes \<Rightarrow> bytes \<Rightarrow> bytes \<Rightarrow> bytes option" where
  "gcmDecrypt P key iv authTag encrypted =
     (if authTag = gcmTag P key iv encrypted then Some (gcmCtr P key iv encrypted) else None)"

subsection \<open>Key files (services/crypto.js)\<close>

definition deriveKey :: "platform \<Rightarrow> bytes \<Rightarrow> bytes" where
  "deriveKey P salt = pbkdf2Sync P (utf8 (MASTER_KEY P)) salt 100000 32"

definition generateHMAC :: "platform \<Rightarrow> bytes \<Rightarrow> bytes \<Rightarrow> bytes" where
  "generateHMAC P data key = hmacSha256 P key data"

definition verifyHMAC :: "platform \<Rightarrow> bytes \<Rightarrow> bytes \<Rightarrow> bytes \<Rightarrow> bool option" where
  "verifyHMAC P data signature key = timingSafeEqual (generateHMAC P data key) signature"

text \<open>The payload object of \<open>generateKeyFile\<close>; \<open>keyId\<close> is the fresh UUID.\<close>

definition keyPayload :: "platform \<Rightarrow> user_data \<Rightarrow> int \<Rightarrow> string \<Rightarrow> key_payload" where
  "keyPayload P userData now keyId =
     \<lparr>kp_userId = ud_userId userData,
      kp_username = ud_username userData,
      kp_email = orString (ud_email userData) [],
      kp_role = orString (ud_role userData) ''user'',
      kp_deviceLimit = orNumber (ud_deviceLimit userData) 3,
      kp_createdAt = toISOString P now,
      kp_expiresAt = orString (ud_expiresAt userData)
                       (toISOString P (now + 365 * 24 * 60 * 60 * 1000)),
      kp_permissions = orArray (ud_permissions userData) [''read'', ''write''],
      kp_keyId = keyId,
      kp_version = ''1.0''\<rparr>"

text \<open>The layout: magic (8), version (2), salt (32), iv (16), auth tag (16), HMAC (32),
  encrypted payload.\<close>

definition generateKeyFile :: "platform \<Rightarrow> user_data \<Rightarrow> int \<Rightarrow> entropy \<Rightarrow> bytes" where
  "generateKeyFile P userData now rng =
     (case randomUUID P rng of (keyId, rng1) \<Rightarrow>
      case randomBytes 32 rng1 of (salt, rng2) \<Rightarrow>
      case randomBytes 16 rng2 of (iv, rng3) \<Rightarrow>
      let payloadBuffer = utf8 (stringifyPayload P (keyPayload P userData now keyId));
          encryptionKey = deriveKey P salt in
      case gcmEncrypt P encryptionKey iv payloadBuffer of (encrypted, authTag) \<Rightarrow>
      let hmacKey = deriveKey P (salt @ utf8 ''hmac'');
          signature = generateHMAC P encrypted hmacKey in
      utf8 ''ARECAKEY'' @ writeUInt16BE 1 @ salt @ iv @ authTag @ signature @ encrypted)"

text \<open>What \<open>validateKeyFile\<close> throws and catches; the caller receives the message.
  The three messages that come from the library (\<^verbatim>\<open>timingSafeEqual\<close>, the decipher,
  \<^verbatim>\<open>JSON.parse\<close>) are given by a representative text.\<close>

datatype key_file_error =
  TooSmall | BadMagic | UnsupportedVersion | SignatureMismatch | BufferLength
  | AuthenticationFailed | PayloadSyntax | KeyFileExpired

fun errorMessage :: "key_file_error \<Rightarrow> string" where
  "errorMessage TooSmall = ''Invalid key file: Too small''"
| "errorMessage BadMagic = ''Invalid key file: Bad magic''"
| "errorMessage UnsupportedVersion = ''Invalid key file: Unsupported version''"
| "errorMessage SignatureMismatch = ''Invalid key file: Signature mismatch''"
| "errorMessage BufferLength = ''Input buffers must have the same byte length''"
| "errorMessage AuthenticationFailed = ''Unsupported state or unable to authenticate data''"
| "errorMessage PayloadSyntax = ''Unexpected end of JSON input''"
| "errorMessage KeyFileExpired = ''Key file has expired''"

text \<open>\<^verbatim>\<open>new Date(payload.expiresAt) < new Date()\<close>: false for an invalid date.\<close>

definition dateBefore :: "platform \<Rightarrow> string \<Rightarrow> int \<Rightarrow> bool" where
  "dateBefore P s now = (case dateParse P s of None \<Rightarrow> False | Some t \<Rightarrow> t < now)"

text \<open>\<open>Inl e\<close> is \<^verbatim>\<open>{ valid: false, error: errorMessage e }\<close>, \<open>Inr p\<close> is
  \<^verbatim>\<open>{ valid: true, data: p }\<close>.\<close>

definition validateKeyFile :: "platform \<Rightarrow> int \<Rightarrow> bytes \<Rightarrow> key_file_error + key_payload" where
  "validateKeyFile P now keyFileBuffer =
     (if length keyFileBuffer < 107 then Inl TooSmall
      else if fromUtf8 (slice keyFileBuffer 0 8) \<noteq> ''ARECAKEY'' then Inl BadMagic
      else if readUInt16BE keyFileBuffer 8 \<noteq> 1 then Inl UnsupportedVersion
      else
        let salt = slice keyFileBuffer 10 42;
            iv = slice keyFileBuffer 42 58;
            authTag = slice keyFileBuffer 58 74;
            signature = slice keyFileBuffer 74 106;
            encrypted = drop 106 keyFileBuffer;
            hmacKey = deriveKey P (salt @ utf8 ''hmac'')
        in case verifyHMAC P encrypted signature hmacKey of
             None \<Rightarrow> Inl BufferLength
           | Some False \<Rightarrow> Inl SignatureMismatch
           | Some True \<Rightarrow>
               (case gcmDecrypt P (deriveKey P salt) iv authTag encrypted of
                  None \<Rightarrow> Inl AuthenticationFailed
                | Some decrypted \<Rightarrow>
                    (case parsePayload P (fromUtf8 decrypted) of
                       None \<Rightarrow> Inl PayloadSyntax
                     | Some payload \<Rightarrow>
                         if kp_role payload \<noteq> ''superadmin''
                            \<and> dateBefore P (kp_expiresAt payload) now
                         then Inl KeyFileExpired
                         else Inr payload)))"

subsection \<open>Device fingerprint and session tokens (services/crypto.js)\<close>

text \<open>The \<^verbatim>\<open>deviceInfo\<close> object of a login request.\<close>

record client_device =
  cd_userAgent :: "string option"
  cd_platform :: "string option"
  cd_language :: "string option"
  cd_screenRes :: "string option"
  cd_timezone :: "string option"

definition noDevice :: client_device where
  "noDevice = \<lparr>cd_userAgent = None, cd_platform = None, cd_language = None,
               cd_screenRes = None, cd_timezone = None\<rparr>"

definition generateDeviceFingerprint :: "platform \<Rightarrow> client_device \<Rightarrow> string" where
  "generateDeviceFingerprint P d =
     (let data = stringifyDevice P (orString (cd_userAgent d) []) (orString (cd_platform d) [])
                   (orString (cd_language d) []) (orString (cd_screenRes d) [])
                   (orString (cd_timezone d) [])
      in take 32 (toHex (sha256 P (utf8 data))))"

text \<open>\<^verbatim>\<open>SESSION_DURATIONS[role] || SESSION_DURATIONS.user\<close>, for the roles of the principal
  schema and every other string that does not name an inherited property of a JavaScript
  object (for a role such as \<^verbatim>\<open>constructor\<close> the lookup yields that property, not a
  number).\<close>

definition getSessionDuration :: "string \<Rightarrow> int" where
  "getSessionDuration r =
     (if r = ''superadmin'' then 100 * 365 * 24 * 60 * 60 * 1000
      else if r = ''admin'' then 30 * 24 * 60 * 60 * 1000
      else 30 * 24 * 60 * 60 * 1000)"

definition tokenClaims :: "session_data \<Rightarrow> int \<Rightarrow> int \<Rightarrow> string \<Rightarrow> token_claims" where
  "tokenClaims sessionData now duration jti =
     \<lparr>tc_userId = sd_userId sessionData,
      tc_username = sd_username sessionData,
      tc_role = sd_role sessionData,
      tc_permissions = sd_permissions sessionData,
      tc_deviceFingerprint = sd_deviceFingerprint sessionData,
      tc_iat = now,
      tc_exp = now + duration,
      tc_neverExpires = (sd_role sessionData = ''superadmin''),
      tc_jti = jti\<rparr>"

definition sessionKey :: "platform \<Rightarrow> bytes" where
  "sessionKey P = scryptSync P (utf8 (MASTER_KEY P)) (utf8 ''session-salt'') 32"

definition generateSessionToken ::
  "platform \<Rightarrow> session_data \<Rightarrow> int option \<Rightarrow> int \<Rightarrow> entropy \<Rightarrow> string" where
  "generateSessionToken P sessionData expiresIn now rng =
     (let duration = (case expiresIn of Some d \<Rightarrow> d
                      | None \<Rightarrow> getSessionDuration (sd_role sessionData)) in
      case randomUUID P rng of (jti, rng1) \<Rightarrow>
      case randomBytes 16 rng1 of (iv, rng2) \<Rightarrow>
      let payloadBuffer = utf8 (stringifyClaims P (tokenClaims sessionData now duration jti)) in
      case gcmEncrypt P (sessionKey P) iv payloadBuffer of (encrypted, authTag) \<Rightarrow>
      base64urlEncode P (iv @ authTag @ encrypted))"

text \<open>\<open>None\<close> is \<^verbatim>\<open>null\<close>: a failed decryption, unparsable claims, or an elapsed expiry.\<close>

definition validateSessionToken :: "platform \<Rightarrow> int \<Rightarrow> string \<Rightarrow> token_claims option" where
  "validateSessionToken P now token =
     (let buffer = base64urlDecode P token;
          iv = slice buffer 0 16;
          authTag = slice buffer 16 32;
          encrypted = drop 32 buffer
      in case gcmDecrypt P (sessionKey P) iv authTag encrypted of
           None \<Rightarrow> None
         | Some decrypted \<Rightarrow>
             (case parseClaims P (fromUtf8 decrypted) of
                None \<Rightarrow> None
              | Some payload \<Rightarrow>
                  if tc_neverExpires payload then Some payload
                  else if tc_exp payload < now then None
                  else Some payload))"

subsection \<open>Passwords (services/crypto.js)\<close>

definition hashPassword :: "platform \<Rightarrow> string \<Rightarrow> entropy \<Rightarrow> string" where
  "hashPassword P password rng =
     (case randomBytes 16 rng of (salt, rng') \<Rightarrow>
      let hash = pbkdf2Sync P (utf8 password) salt 100000 64 in
      toHex salt @ '':'' @ toHex hash)"

text \<open>\<open>None\<close> is an exception: a stored form without a colon makes \<^verbatim>\<open>Buffer.from(undefined)\<close>
  throw, a digest of another length makes \<^verbatim>\<open>timingSafeEqual\<close> throw.\<close>

definition verifyPassword :: "platform \<Rightarrow> string \<Rightarrow> string \<Rightarrow> bool option" where
  "verifyPassword P password storedHash =
     (case splitOn CHR '':'' storedHash of
        saltHex # hashHex # _ \<Rightarrow>
          (let salt = fromHex saltHex;
               hash = pbkdf2Sync P (utf8 password) salt 100000 64
           in timingSafeEqual hash (fromHex hashHex))
      | _ \<Rightarrow> None)"

subsection \<open>Session records (models/Session.js)\<close>

datatype termination_reason = Logout | Expired | Revoked | DeviceLimit | AdminAction

record device_info =
  di_userAgent :: string
  di_platform :: string
  di_browser :: string
  di_os :: string
  di_device :: string
  di_ip :: "string option"

record session =
  sid :: nat
  suser :: string
  sessionToken :: string
  deviceFingerprint :: string
  deviceInfo :: device_info
  isActive :: bool
  createdAt :: int
  lastActivityAt :: int
  expiresAt :: int
  neverExpires :: bool
  terminatedAt :: "int option"
  terminatedReason :: "termination_reason option"

type_synonym store = "session list"

text \<open>\<^verbatim>\<open>session.save()\<close>: the document with the same \<^verbatim>\<open>_id\<close> is replaced. Documents
  are never removed: the database's background deletion of expired documents (the TTL
  index on \<^verbatim>\<open>expiresAt\<close>) is not part of the model.\<close>

definition save :: "store \<Rightarrow> session \<Rightarrow> store" where
  "save st s = map (\<lambda>x. if sid x = sid s then s else x) st"

definition findById :: "store \<Rightarrow> nat \<Rightarrow> session option" where
  "findById st i = find (\<lambda>s. sid s = i) st"

definition terminate :: "termination_reason \<Rightarrow> int \<Rightarrow> session \<Rightarrow> session" where
  "terminate reason now s =
     s\<lparr>isActive := False, terminatedAt := Some now, terminatedReason := Some reason\<rparr>"

definition updateActivity :: "int \<Rightarrow> session \<Rightarrow> session" where
  "updateActivity now s = s\<lparr>lastActivityAt := now\<rparr>"

text \<open>The filter shared by the read paths of the model: the active flag, and never-expires
  or an expiry after the current time.\<close>

definition live :: "int \<Rightarrow> session \<Rightarrow> bool" where
  "live now s \<longleftrightarrow> isActive s \<and> (neverExpires s \<or> now < expiresAt s)"

definition getActiveSessionsForUser :: "store \<Rightarrow> string \<Rightarrow> int \<Rightarrow> session list" where
  "getActiveSessionsForUser st u now = filter (\<lambda>s. suser s = u \<and> live now s) st"

text \<open>\<^verbatim>\<open>distinct('deviceFingerprint', ...)\<close>: the distinct fingerprints of the live sessions.\<close>

definition countActiveDevices :: "store \<Rightarrow> string \<Rightarrow> int \<Rightarrow> string list" where
  "countActiveDevices st u now =
     remdups (map deviceFingerprint (filter (\<lambda>s. suser s = u \<and> live now s) st))"

definition terminateAllForUser :: "store \<Rightarrow> string \<Rightarrow> termination_reason \<Rightarrow> int \<Rightarrow> store" where
  "terminateAllForUser st u reason now =
     map (\<lambda>s. if suser s = u \<and> isActive s
               then s\<lparr>isActive := False, terminatedAt := Some now, terminatedReason := Some reason\<rparr>
               else s) st"

text \<open>\<^verbatim>\<open>findOne(...).sort({ createdAt: 1 })\<close>: a document with the least \<^verbatim>\<open>createdAt\<close>;
  among equal creation times the model takes the first in insertion order.\<close>

fun oldest :: "session list \<Rightarrow> session option" where
  "oldest [] = None"
| "oldest (x # xs) =
     (case oldest xs of
        None \<Rightarrow> Some x
      | Some y \<Rightarrow> if createdAt x \<le> createdAt y then Some x else Some y)"

definition terminateOldestSession :: "store \<Rightarrow> string \<Rightarrow> int \<Rightarrow> store \<times> session option" where
  "terminateOldestSession st u now =
     (case oldest (filter (\<lambda>s. suser s = u \<and> isActive s) st) of
        None \<Rightarrow> (st, None)
      | Some s \<Rightarrow> (let s' = terminate DeviceLimit now s in (save st s', Some s')))"

subsection \<open>Termination handlers (controllers/authController.js)\<close>

text \<open>A handler's answer: the HTTP status and the \<^verbatim>\<open>error\<close> or \<^verbatim>\<open>message\<close> text.\<close>

type_synonym reply = "nat \<times> string"

text \<open>\<^verbatim>\<open>logout\<close>: the token is \<^verbatim>\<open>req.headers.authorization?.replace('Bearer ', '')\<close>;
  a missing header or an empty token skips the lookup. The answer is the same in all cases.\<close>

definition logout :: "store \<Rightarrow> string option \<Rightarrow> int \<Rightarrow> reply \<times> store" where
  "logout st authorization now =
     (case map_option (removeFirst ''Bearer '') authorization of
        None \<Rightarrow> ((200, ''Logged out successfully''), st)
      | Some token \<Rightarrow>
          if token \<noteq> [] then
            (case find (\<lambda>s. sessionToken s = token \<and> isActive s) st of
               Some s \<Rightarrow> ((200, ''Logged out successfully''), save st (terminate Logout now s))
             | None \<Rightarrow> ((200, ''Logged out successfully''), st))
          else ((200, ''Logged out successfully''), st))"

definition logoutAll :: "store \<Rightarrow> string \<Rightarrow> int \<Rightarrow> reply \<times> store" where
  "logoutAll st userId now =
     ((200, ''Logged out from all devices''), terminateAllForUser st userId Logout now)"

definition terminateSession :: "store \<Rightarrow> string \<Rightarrow> nat \<Rightarrow> int \<Rightarrow> reply \<times> store" where
  "terminateSession st requesterRole i now =
     (if requesterRole \<noteq> ''admin'' \<and> requesterRole \<noteq> ''superadmin''
      then ((403, ''Admin access required''), st)
      else case findById st i of
             None \<Rightarrow> ((404, ''Session not found''), st)
           | Some s \<Rightarrow> ((200, ''Session terminated''), save st (terminate AdminAction now s)))"

subsection \<open>Principals (models/User.js)\<close>

record user =
  u_id :: string
  u_username :: string
  u_email :: string
  u_role :: string
  u_permissions :: "string list"
  u_deviceLimit :: nat
  u_passwordHash :: "string option"
  u_isActive :: bool
  u_keyFileId :: "string option"
  u_keyFileRevoked :: bool
  u_lastLoginAt :: "int option"
  u_loginCount :: nat

definition findByKeyFileId :: "user list \<Rightarrow> string \<Rightarrow> user option" where
  "findByKeyFileId users k =
     find (\<lambda>u. u_keyFileId u = Some k \<and> \<not> u_keyFileRevoked u \<and> u_isActive u) users"

definition saveUser :: "user list \<Rightarrow> user \<Rightarrow> user list" where
  "saveUser users u = map (\<lambda>x. if u_id x = u_id u then u else x) users"

text \<open>\<open>validatePassword\<close>: false without a stored hash; \<open>None\<close> where \<open>verifyPassword\<close> throws.\<close>

definition validatePassword :: "platform \<Rightarrow> user \<Rightarrow> string \<Rightarrow> bool option" where
  "validatePassword P u password =
     (case u_passwordHash u of
        None \<Rightarrow> Some False
      | Some h \<Rightarrow> if h = [] then Some False else verifyPassword P password h)"

subsection \<open>Admission (controllers/authController.js)\<close>

text \<open>\<open>parseDeviceInfo\<close>; the address is added by the caller.\<close>

definition parseDeviceInfo :: "client_device option \<Rightarrow> device_info" where
  "parseDeviceInfo clientInfo =
     (let d = (case clientInfo of None \<Rightarrow> noDevice | Some x \<Rightarrow> x);
          ua = orString (cd_userAgent d) [];
          browser = (if includesStr ua ''Chrome'' then ''Chrome''
                     else if includesStr ua ''Firefox'' then ''Firefox''
                     else if includesStr ua ''Safari'' then ''Safari''
                     else if includesStr ua ''Edge'' then ''Edge''
                     else ''Unknown'');
          os = (if includesStr ua ''Windows'' then ''Windows''
                else if includesStr ua ''Mac'' then ''macOS''
                else if includesStr ua ''Linux'' then ''Linux''
                else if includesStr ua ''Android'' then ''Android''
                else if includesStr ua ''iPhone'' \<or> includesStr ua ''iPad'' then ''iOS''
                else ''Unknown'');
          device = (if includesStr ua ''Windows'' \<or> includesStr ua ''Mac''
                       \<or> includesStr ua ''Linux'' then ''Desktop''
                    else if includesStr ua ''Android'' then ''Mobile''
                    else if includesStr ua ''iPhone'' \<or> includesStr ua ''iPad'' then ''Mobile''
                    else ''Desktop'')
      in \<lparr>di_userAgent = ua, di_platform = orString (cd_platform d) [],
          di_browser = browser, di_os = os, di_device = device, di_ip = None\<rparr>)"

text \<open>The \<^verbatim>\<open>_id\<close> of a new document: larger than every id in the collection.\<close>

definition freshId :: "store \<Rightarrow> nat" where
  "freshId st = Suc (fold max (map sid st) 0)"

text \<open>\<^verbatim>\<open>Session.create\<close> with the fields the login handlers pass; the others take the
  defaults of the schema: active, created and last active now, \<open>neverExpires\<close> false.\<close>

definition createSession ::
  "store \<Rightarrow> string \<Rightarrow> string \<Rightarrow> string \<Rightarrow> device_info \<Rightarrow> int \<Rightarrow> int \<Rightarrow> store" where
  "createSession st u token fp info expires now =
     st @ [\<lparr>sid = freshId st, suser = u, sessionToken = token, deviceFingerprint = fp,
            deviceInfo = info, isActive = True, createdAt = now, lastActivityAt = now,
            expiresAt = expires, neverExpires = False, terminatedAt = None,
            terminatedReason = None\<rparr>]"

text \<open>The device-limit check of both login handlers: with as many live devices as the
  limit allows, and no live session of this device, the oldest active session goes.\<close>

definition evictForDevice :: "store \<Rightarrow> user \<Rightarrow> string \<Rightarrow> int \<Rightarrow> store" where
  "evictForDevice st u fp now =
     (let activeDevices = countActiveDevices st (u_id u) now in
      if u_deviceLimit u \<le> length activeDevices then
        (case find (\<lambda>s. suser s = u_id u \<and> deviceFingerprint s = fp \<and> isActive s
                         \<and> now < expiresAt s) st of
           None \<Rightarrow> fst (terminateOldestSession st (u_id u) now)
         | Some existingSession \<Rightarrow> st)
      else st)"

record login_request =
  lr_keyFile :: "string option"
  lr_username :: "string option"
  lr_password :: "string option"
  lr_deviceInfo :: "client_device option"
  lr_ip :: "string option"
  lr_remoteAddress :: "string option"

text \<open>\<^verbatim>\<open>req.ip || req.connection?.remoteAddress\<close>.\<close>

definition clientAddress :: "login_request \<Rightarrow> string option" where
  "clientAddress req =
     (case lr_ip req of
        None \<Rightarrow> lr_remoteAddress req
      | Some a \<Rightarrow> if a = [] then lr_remoteAddress req else Some a)"

text \<open>The part the two login handlers share, from the fingerprint to \<^verbatim>\<open>Session.create\<close>:
  the token, the expiry sent to the client, and the collection afterwards.\<close>

definition admitSession ::
  "platform \<Rightarrow> store \<Rightarrow> user \<Rightarrow> login_request \<Rightarrow> int \<Rightarrow> entropy \<Rightarrow> (string \<times> int) \<times> store" where
  "admitSession P st u req now rng =
     (let fp = generateDeviceFingerprint P
                 (case lr_deviceInfo req of None \<Rightarrow> noDevice | Some d \<Rightarrow> d);
          st1 = evictForDevice st u fp now;
          sessionData = \<lparr>sd_userId = u_id u, sd_username = u_username u, sd_role = u_role u,
                         sd_permissions = u_permissions u, sd_deviceFingerprint = fp\<rparr>;
          token = generateSessionToken P sessionData None now rng;
          expires = now + 24 * 60 * 60 * 1000;
          info = (parseDeviceInfo (lr_deviceInfo req))\<lparr>di_ip := clientAddress req\<rparr>
      in ((token, expires), createSession st1 (u_id u) token fp info expires now))"

text \<open>The answer of a login handler: a status with an error text, or the \<^verbatim>\<open>data\<close> object
  with its three properties \<^verbatim>\<open>token\<close>, \<^verbatim>\<open>user\<close> and \<^verbatim>\<open>expiresAt\<close>.\<close>

datatype login_response = Failure nat string | LoggedIn string user int

definition recordLogin :: "user \<Rightarrow> int \<Rightarrow> user" where
  "recordLogin u now = u\<lparr>u_lastLoginAt := Some now, u_loginCount := u_loginCount u + 1\<rparr>"

definition loginWithKeyFile ::
  "platform \<Rightarrow> user list \<Rightarrow> store \<Rightarrow> login_request \<Rightarrow> int \<Rightarrow> entropy
     \<Rightarrow> login_response \<times> user list \<times> store" where
  "loginWithKeyFile P users st req now rng =
     (case lr_keyFile req of
        None \<Rightarrow> (Failure 400 ''Key file is required'', users, st)
      | Some keyFile \<Rightarrow>
          if keyFile = [] then (Failure 400 ''Key file is required'', users, st)
          else case validateKeyFile P now (base64Decode P keyFile) of
            Inl e \<Rightarrow>
              (Failure 401 (if errorMessage e = [] then ''Invalid key file'' else errorMessage e),
               users, st)
          | Inr keyData \<Rightarrow>
              (case findByKeyFileId users (kp_keyId keyData) of
                 None \<Rightarrow> (Failure 401 ''Key file not registered or has been revoked'', users, st)
               | Some u \<Rightarrow>
                   if \<not> u_isActive u then (Failure 403 ''Account is disabled'', users, st)
                   else case admitSession P st u req now rng of
                     ((token, expires), st') \<Rightarrow>
                       (LoggedIn token (recordLogin u now) expires,
                        saveUser users (recordLogin u now), st')))"

definition loginWithPassword ::
  "platform \<Rightarrow> user list \<Rightarrow> store \<Rightarrow> login_request \<Rightarrow> int \<Rightarrow> entropy
     \<Rightarrow> login_response \<times> user list \<times> store" where
  "loginWithPassword P users st req now rng =
     (if orString (lr_username req) [] = [] \<or> orString (lr_password req) [] = []
      then (Failure 400 ''Username and password are required'', users, st)
      else case find (\<lambda>u. Some (u_username u) = lr_username req \<and> u_isActive u) users of
        None \<Rightarrow> (Failure 401 ''Invalid username or password'', users, st)
      | Some u \<Rightarrow>
          if orString (u_passwordHash u) [] = []
          then (Failure 401 ''Password login not enabled for this account. Use key file.'',
                users, st)
          else case validatePassword P u (orString (lr_password req) []) of
            None \<Rightarrow> (Failure 500 ''Authentication failed'', users, st)
          | Some False \<Rightarrow> (Failure 401 ''Invalid username or password'', users, st)
          | Some True \<Rightarrow>
              if u_keyFileRevoked u
              then (Failure 403 ''Account access has been revoked'', users, st)
              else case admitSession P st u req now rng of
                ((token, expires), st') \<Rightarrow>
                  (LoggedIn token (recordLogin u now) expires,
                   saveUser users (recordLogin u now), st'))"

subsection \<open>Sequences of admissions\<close>

text \<open>An admission is a login request with the time it is handled and the random source
  it draws from. \<open>admitAll\<close> handles a list of them for one principal, one after the other.\<close>

type_synonym admission = "login_request \<times> int \<times> entropy"

text \<open>The fingerprint that \<open>admitSession\<close> computes for a request.\<close>

definition requestFingerprint :: "platform \<Rightarrow> login_request \<Rightarrow> string" where
  "requestFingerprint P req =
     generateDeviceFingerprint P
       (case lr_deviceInfo req of None \<Rightarrow> noDevice | Some d \<Rightarrow> d)"

definition adTime :: "admission \<Rightarrow> int" where
  "adTime a = fst (snd a)"

definition admit :: "platform \<Rightarrow> store \<Rightarrow> user \<Rightarrow> admission \<Rightarrow> store" where
  "admit P st u a = snd (admitSession P st u (fst a) (adTime a) (snd (snd a)))"

fun admitAll :: "platform \<Rightarrow> store \<Rightarrow> user \<Rightarrow> admission list \<Rightarrow> store" where
  "admitAll P st u [] = st"
| "admitAll P st u (a # rest) = admitAll P (admit P st u a) u rest"

subsection \<open>Bearer validation (the \<open>protect\<close> middleware)\<close>

text \<open>\<open>Inl\<close> is the 401 answer; \<open>Inr\<close> is \<^verbatim>\<open>next()\<close> with \<^verbatim>\<open>req.user\<close>, \<^verbatim>\<open>req.session\<close>
  and the collection after the activity update.\<close>

definition protect ::
  "platform \<Rightarrow> store \<Rightarrow> string option \<Rightarrow> int \<Rightarrow> reply + (token_claims \<times> session \<times> store)" where
  "protect P st authorization now =
     (case authorization of
        None \<Rightarrow> Inl (401, ''No authentication token provided'')
      | Some authHeader \<Rightarrow>
          if \<not> startsWith authHeader ''Bearer ''
          then Inl (401, ''No authentication token provided'')
          else
            let token = removeFirst ''Bearer '' authHeader in
            case validateSessionToken P now token of
              None \<Rightarrow> Inl (401, ''Invalid or expired token'')
            | Some decoded \<Rightarrow>
                (case find (\<lambda>s. sessionToken s = token \<and> isActive s \<and> now < expiresAt s) st of
                   None \<Rightarrow> Inl (401, ''Session expired or invalidated'')
                 | Some s \<Rightarrow>
                     Inr (decoded, updateActivity now s, save st (updateActivity now s))))"

subsection \<open>What the platform is assumed to do\<close>

text \<open>
  The properties of the library that the theorems about key files and tokens rely on:
  HMAC-SHA-256 digests have 32 bytes and GCM tags 16; the counter-mode transformation keeps
  the length and undoes itself under the same key and iv.
\<close>

definition cipherLaws :: "platform \<Rightarrow> bool" where
  "cipherLaws P \<longleftrightarrow>
     (\<forall>k d. length (hmacSha256 P k d) = 32)
     \<and> (\<forall>k iv c. length (gcmTag P k iv c) = 16)
     \<and> (\<forall>k iv d. length (gcmCtr P k iv d) = length d)
     \<and> (\<forall>k iv d. gcmCtr P k iv (gcmCtr P k iv d) = d)"

text \<open>\<^verbatim>\<open>JSON.parse(JSON.stringify(p))\<close> gives \<open>p\<close> back, and the text is not empty.\<close>

definition payloadCodec :: "platform \<Rightarrow> key_payload \<Rightarrow> bool" where
  "payloadCodec P p \<longleftrightarrow>
     stringifyPayload P p \<noteq> [] \<and> parsePayload P (stringifyPayload P p) = Some p"

definition claimsCodec :: "platform \<Rightarrow> token_claims \<Rightarrow> bool" where
  "claimsCodec P c \<longleftrightarrow> parseClaims P (stringifyClaims P c) = Some c"

text \<open>Decoding the base64url text of a buffer gives the buffer back.\<close>

definition transportCodec :: "platform \<Rightarrow> bytes \<Rightarrow> bool" where
  "transportCodec P b \<longleftrightarrow> base64urlDecode P (base64urlEncode P b) = b"

subsection \<open>The parts of a generated key file\<close>

text \<open>The local variables of \<open>generateKeyFile\<close> as functions of its arguments: the UUID
  takes the first 16 random bytes, the salt the next 32, the iv the 16 after those.\<close>

definition keyFileId :: "platform \<Rightarrow> entropy \<Rightarrow> string" where
  "keyFileId P rng = fst (randomUUID P rng)"

definition keyFileSalt :: "entropy \<Rightarrow> bytes" where
  "keyFileSalt rng = map rng [16..<48]"

definition keyFileIv :: "entropy \<Rightarrow> bytes" where
  "keyFileIv rng = map rng [48..<64]"

definition keyFileCiphertext :: "platform \<Rightarrow> user_data \<Rightarrow> int \<Rightarrow> entropy \<Rightarrow> bytes" where
  "keyFileCiphertext P userData now rng =
     gcmCtr P (deriveKey P (keyFileSalt rng)) (keyFileIv rng)
       (utf8 (stringifyPayload P (keyPayload P userData now (keyFileId P rng))))"

text \<open>The token's parts likewise: the UUID, then the iv.\<close>

definition tokenIv :: "entropy \<Rightarrow> bytes" where
  "tokenIv rng = map rng [16..<32]"

definition mintedClaims :: "platform \<Rightarrow> session_data \<Rightarrow> int option \<Rightarrow> int \<Rightarrow> entropy \<Rightarrow> token_claims" where
  "mintedClaims P sessionData expiresIn now rng =
     tokenClaims sessionData now
       (case expiresIn of Some d \<Rightarrow> d | None \<Rightarrow> getSessionDuration (sd_role sessionData))
       (fst (randomUUID P rng))"

definition tokenBuffer :: "platform \<Rightarrow> session_data \<Rightarrow> int option \<Rightarrow> int \<Rightarrow> entropy \<Rightarrow> bytes" where
  "tokenBuffer P sessionData expiresIn now rng =
     (let encrypted = gcmCtr P (sessionKey P) (tokenIv rng)
                        (utf8 (stringifyClaims P (mintedClaims P sessionData expiresIn now rng)))
      in tokenIv rng @ gcmTag P (sessionKey P) (tokenIv rng) encrypted @ encrypted)"

subsection \<open>An executable platform for the examples\<close>

text \<open>
  The examples need a platform that can be evaluated. Its ciphers and hashes are stand-ins
  with the interface of the real ones: digests and tags of the right length, a
  counter-mode transformation that is its own inverse. The base64 decoder follows Node's:
  characters outside the alphabet are skipped, the URL-safe characters are accepted, and
  decoding stops at the first padding character.
\<close>

definition demoPbkdf2 :: "bytes \<Rightarrow> bytes \<Rightarrow> nat \<Rightarrow> nat \<Rightarrow> bytes" where
  "demoPbkdf2 pw salt n len = take len (pw @ salt @ replicate len 0)"

definition demoScrypt :: "bytes \<Rightarrow> bytes \<Rightarrow> nat \<Rightarrow> bytes" where
  "demoScrypt pw salt len = take len (pw @ salt @ replicate len 0)"

definition demoDigest :: "bytes \<Rightarrow> bytes" where
  "demoDigest d = take 32 (d @ replicate 32 0)"

definition demoHmac :: "bytes \<Rightarrow> bytes \<Rightarrow> bytes" where
  "demoHmac key d = demoDigest (d @ key)"

definition demoCtr :: "bytes \<Rightarrow> bytes \<Rightarrow> bytes \<Rightarrow> bytes" where
  "demoCtr key iv d = map (\<lambda>w. w XOR 90) d"

definition demoTag :: "bytes \<Rightarrow> bytes \<Rightarrow> bytes \<Rightarrow> bytes" where
  "demoTag key iv c = take 16 (c @ iv @ replicate 16 0)"

text \<open>Numbers and dates are written in decimal (up to twenty digits).\<close>

fun decimalDigits :: "nat \<Rightarrow> int \<Rightarrow> string" where
  "decimalDigits 0 n = []"
| "decimalDigits (Suc fuel) n =
     (if n < 10 then [char_of (48 + n)]
      else decimalDigits fuel (n div 10) @ [char_of (48 + n mod 10)])"

definition demoDecimal :: "int \<Rightarrow> string" where
  "demoDecimal t = decimalDigits 20 (max 0 t)"

definition demoNumber :: "string \<Rightarrow> int option" where
  "demoNumber s =
     (if s \<noteq> [] \<and> list_all (\<lambda>c. 48 \<le> (of_char c :: int) \<and> (of_char c :: int) \<le> 57) s
      then Some (fold (\<lambda>c acc. 10 * acc + (of_char c - 48)) s 0)
      else None)"

text \<open>The stand-in serialisations keep the fields the code reads after parsing.\<close>

definition demoStringifyPayload :: "key_payload \<Rightarrow> string" where
  "demoStringifyPayload p =
     kp_role p @ ''|'' @ kp_createdAt p @ ''|'' @ kp_expiresAt p @ ''|'' @ kp_keyId p"

definition demoParsePayload :: "string \<Rightarrow> key_payload option" where
  "demoParsePayload s =
     (case splitOn CHR ''|'' s of
        [r, c, e, k] \<Rightarrow>
          Some \<lparr>kp_userId = ''u1'', kp_username = ''alice'', kp_email = [], kp_role = r,
                kp_deviceLimit = 3, kp_createdAt = c, kp_expiresAt = e,
                kp_permissions = [''read'', ''write''], kp_keyId = k, kp_version = ''1.0''\<rparr>
      | _ \<Rightarrow> None)"

definition demoStringifyClaims :: "token_claims \<Rightarrow> string" where
  "demoStringifyClaims c =
     tc_role c @ ''|'' @ demoDecimal (tc_iat c) @ ''|'' @ demoDecimal (tc_exp c)
       @ ''|'' @ tc_jti c"

definition demoParseClaims :: "string \<Rightarrow> token_claims option" where
  "demoParseClaims s =
     (case splitOn CHR ''|'' s of
        [r, i, e, j] \<Rightarrow>
          (case (demoNumber i, demoNumber e) of
             (Some iat, Some exp) \<Rightarrow>
               Some \<lparr>tc_userId = ''u1'', tc_username = ''alice'', tc_role = r,
                     tc_permissions = [''read'', ''write''], tc_deviceFingerprint = ''f'',
                     tc_iat = iat, tc_exp = exp, tc_neverExpires = (r = ''superadmin''),
                     tc_jti = j\<rparr>
           | _ \<Rightarrow> None)
      | _ \<Rightarrow> None)"

definition base64Value :: "char \<Rightarrow> nat option" where
  "base64Value c =
     (let n = (of_char c :: nat) in
      if 65 \<le> n \<and> n \<le> 90 then Some (n - 65)
      else if 97 \<le> n \<and> n \<le> 122 then Some (n - 71)
      else if 48 \<le> n \<and> n \<le> 57 then Some (n + 4)
      else if n = 43 \<or> n = 45 then Some 62
      else if n = 47 \<or> n = 95 then Some 63
      else None)"

fun base64Sextets :: "string \<Rightarrow> nat list" where
  "base64Sextets [] = []"
| "base64Sextets (c # cs) =
     (if c = CHR ''='' then []
      else case base64Value c of
             None \<Rightarrow> base64Sextets cs
           | Some v \<Rightarrow> v # base64Sextets cs)"

fun base64Pack :: "nat list \<Rightarrow> bytes" where
  "base64Pack (a # b # c # d # r) =
     word_of_nat (a * 4 + b div 16) # word_of_nat ((b mod 16) * 16 + c div 4)
       # word_of_nat ((c mod 4) * 64 + d) # base64Pack r"
| "base64Pack [a, b, c] =
     [word_of_nat (a * 4 + b div 16), word_of_nat ((b mod 16) * 16 + c div 4)]"
| "base64Pack [a, b] = [word_of_nat (a * 4 + b div 16)]"
| "base64Pack _ = []"

definition nodeBase64Decode :: "string \<Rightarrow> bytes" where
  "nodeBase64Decode s = base64Pack (base64Sextets s)"

fun base64Unpack :: "bytes \<Rightarrow> nat list" where
  "base64Unpack (x # y # z # r) =
     [unat x div 4, (unat x mod 4) * 16 + unat y div 16,
      (unat y mod 16) * 4 + unat z div 64, unat z mod 64] @ base64Unpack r"
| "base64Unpack [x, y] =
     [unat x div 4, (unat x mod 4) * 16 + unat y div 16, (unat y mod 16) * 4]"
| "base64Unpack [x] = [unat x div 4, (unat x mod 4) * 16]"
| "base64Unpack [] = []"

definition nodeBase64urlEncode :: "bytes \<Rightarrow> string" where
  "nodeBase64urlEncode b =
     map (\<lambda>n. ''ABCDEFGHIJKLMNOPQRSTUVWXYZabcdefghijklmnopqrstuvwxyz0123456789-_'' ! n)
       (base64Unpack b)"

definition demoPlatform :: platform where
  "demoPlatform =
     \<lparr>MASTER_KEY = ''arecanut-pro-secure-master-key-2026!'',
      pbkdf2Sync = demoPbkdf2,
      scryptSync = demoScrypt,
      hmacSha256 = demoHmac,
      sha256 = demoDigest,
      gcmCtr = demoCtr,
      gcmTag = demoTag,
      uuidFormat = toHex,
      stringifyPayload = demoStringifyPayload,
      parsePayload = demoParsePayload,
      stringifyClaims = demoStringifyClaims,
      parseClaims = demoParseClaims,
      stringifyDevice = (\<lambda>ua pl la sr tz. ua @ ''|'' @ pl @ ''|'' @ la @ ''|'' @ sr @ ''|'' @ tz),
      dateParse = demoNumber,
      toISOString = demoDecimal,
      base64Decode = nodeBase64Decode,
      base64urlEncode = nodeBase64urlEncode,
      base64urlDecode = nodeBase64Decode\<rparr>"

text \<open>A random source that always yields the byte 7.\<close>

definition demoEntropy :: entropy where
  "demoEntropy = (\<lambda>i. 7)"

subsection \<open>Example data\<close>

text \<open>A session used in examples: created at time 0 for principal 1.\<close>

definition example_session :: session where
  "example_session =
     \<lparr>sid = 0, suser = ''u1'', sessionToken = ''t'', deviceFingerprint = ''f'',
      deviceInfo = \<lparr>di_userAgent = [], di_platform = [], di_browser = [], di_os = [],
                    di_device = [], di_ip = None\<rparr>,
      isActive = True, createdAt = 0, lastActivityAt = 0, expiresAt = 86400000,
      neverExpires = False, terminatedAt = None, terminatedReason = None\<rparr>"

text \<open>A principal's fields with an explicit expiry at time 9, the same for the top role,
  and the key file generated from each at time 4.\<close>

definition demoUserData :: user_data where
  "demoUserData =
     \<lparr>ud_userId = ''u1'', ud_username = ''alice'', ud_email = None, ud_role = Some ''user'',
      ud_deviceLimit = None, ud_expiresAt = Some ''9'', ud_permissions = None,
      ud_keyId = Some ''chosen-by-caller''\<rparr>"

definition demoKeyFile :: bytes where
  "demoKeyFile = generateKeyFile demoPlatform demoUserData 4 demoEntropy"

definition demoRootKeyFile :: bytes where
  "demoRootKeyFile =
     generateKeyFile demoPlatform (demoUserData\<lparr>ud_role := Some ''superadmin''\<rparr>) 4 demoEntropy"

text \<open>A token minted at time 4 for five milliseconds, and the claims it carries.\<close>

definition demoSessionData :: session_data where
  "demoSessionData =
     \<lparr>sd_userId = ''u1'', sd_username = ''alice'', sd_role = ''user'',
      sd_permissions = [''read'', ''write''], sd_deviceFingerprint = ''f''\<rparr>"

definition demoToken :: string where
  "demoToken = generateSessionToken demoPlatform demoSessionData (Some 5) 4 demoEntropy"

definition demoClaims :: token_claims where
  "demoClaims =
     \<lparr>tc_userId = ''u1'', tc_username = ''alice'', tc_role = ''user'',
      tc_permissions = [''read'', ''write''], tc_deviceFingerprint = ''f'',
      tc_iat = 4, tc_exp = 9, tc_neverExpires = False,
      tc_jti = ''07070707070707070707070707070707''\<rparr>"

definition demoRootToken :: string where
  "demoRootToken =
     generateSessionToken demoPlatform (demoSessionData\<lparr>sd_role := ''superadmin''\<rparr>) (Some 5) 4
       demoEntropy"

text \<open>A key-file login request carrying the given text.\<close>

definition keyFileRequest :: "string \<Rightarrow> login_request" where
  "keyFileRequest kf =
     \<lparr>lr_keyFile = Some kf, lr_username = None, lr_password = None, lr_deviceInfo = None,
      lr_ip = Some ''10.0.0.1'', lr_remoteAddress = None\<rparr>"

text \<open>A principal with device limit 1, the top-role principal, and two login requests
  from different devices.\<close>

definition demoUser :: user where
  "demoUser =
     \<lparr>u_id = ''u1'', u_username = ''alice'', u_email = [], u_role = ''user'',
      u_permissions = [''read'', ''write''], u_deviceLimit = 1, u_passwordHash = None,
      u_isActive = True, u_keyFileId = Some ''07070707070707070707070707070707'',
      u_keyFileRevoked = False, u_lastLoginAt = None, u_loginCount = 0\<rparr>"

definition demoRoot :: user where
  "demoRoot = demoUser\<lparr>u_id := ''u0'', u_username := ''root'', u_role := ''superadmin'',
                        u_deviceLimit := 5\<rparr>"

definition deviceRequest :: "string \<Rightarrow> login_request" where
  "deviceRequest ua =
     \<lparr>lr_keyFile = None, lr_username = None, lr_password = None,
      lr_deviceInfo = Some (noDevice\<lparr>cd_userAgent := Some ua\<rparr>),
      lr_ip = Some ''10.0.0.1'', lr_remoteAddress = None\<rparr>"


section \<open>Termination\<close>

lemma find_save_other:
  "find (\<lambda>s. sid s = i) (save st s') =
     (if sid s' = i then map_option (\<lambda>_. s') (find (\<lambda>s. sid s = i) st)
      else find (\<lambda>s. sid s = i) st)"
  by (induction st) (auto simp: save_def)

lemma sid_inj:
  "distinct (map sid st) \<Longrightarrow> x \<in> set st \<Longrightarrow> y \<in> set st \<Longrightarrow> sid x = sid y \<Longrightarrow> x = y"
  by (meson distinct_map inj_on_def)

lemma findById_mem: "findById st i = Some s \<Longrightarrow> s \<in> set st \<and> sid s = i"
  by (auto simp: findById_def find_Some_iff)

lemma findById_save:
  "findById (save st s') i =
     (if sid s' = i then map_option (\<lambda>_. s') (findById st i) else findById st i)"
  unfolding findById_def by (rule find_save_other)

lemma findById_terminateAll_inactive:
  "findById st i = Some s \<Longrightarrow> \<not> isActive s \<Longrightarrow>
   findById (terminateAllForUser st u r now) i = Some s"
  unfolding findById_def terminateAllForUser_def
  by (induction st) (auto split: if_splits)

lemma oldest_mem: "oldest xs = Some s \<Longrightarrow> s \<in> set xs"
  by (induction xs arbitrary: s) (auto split: option.splits if_splits)

lemma sid_terminate [simp]: "sid (terminate r t s) = sid s"
  by (simp add: terminate_def)

lemma logout_reply: "fst (logout st a now) = (200, ''Logged out successfully'')"
  by (simp add: logout_def split: option.splits)

lemma logout_keeps:
  assumes f: "findById st i = Some s" and ia: "\<not> isActive s" and d: "distinct (map sid st)"
  shows "findById (snd (logout st a now)) i = Some s"
proof (cases a)
  case None
  then show ?thesis using f by (simp add: logout_def)
next
  case (Some h)
  let ?tok = "removeFirst ''Bearer '' h"
  show ?thesis
  proof (cases "find (\<lambda>s. sessionToken s = ?tok \<and> isActive s) st")
    case None
    then show ?thesis using f Some by (simp add: logout_def)
  next
    case (Some x)
    then have x: "x \<in> set st" "isActive x" by (auto simp: find_Some_iff)
    from f have s: "s \<in> set st" "sid s = i" using findById_mem by blast+
    have "sid x \<noteq> i" using sid_inj [OF d x(1) s(1)] s(2) x(2) ia by auto
    then show ?thesis using f Some \<open>a = Some h\<close>
      by (simp add: logout_def findById_save)
  qed
qed

lemma terminateOldest_keeps:
  assumes f: "findById st i = Some s" and ia: "\<not> isActive s" and d: "distinct (map sid st)"
  shows "findById (fst (terminateOldestSession st u now)) i = Some s"
proof (cases "oldest (filter (\<lambda>s. suser s = u \<and> isActive s) st)")
  case None
  then show ?thesis using f by (simp add: terminateOldestSession_def)
next
  case (Some x)
  then have x: "x \<in> set st" "isActive x" using oldest_mem by fastforce+
  from f have s: "s \<in> set st" "sid s = i" using findById_mem by blast+
  have "sid x \<noteq> i" using sid_inj [OF d x(1) s(1)] s(2) x(2) ia by auto
  then show ?thesis using f Some
    by (simp add: terminateOldestSession_def findById_save Let_def)
qed

lemma terminateSession_again:
  assumes f: "findById st i = Some s" and adm: "r = ''admin'' \<or> r = ''superadmin''"
  shows "fst (terminateSession st r i now) = (200, ''Session terminated'')"
    and "findById (snd (terminateSession st r i now)) i = Some (terminate AdminAction now s)"
  using assms findById_mem [OF f] by (auto simp: terminateSession_def findById_save)

text \<open>
  The paths that select active sessions only leave an already terminated record as it is,
  with the reason and the timestamp of its first termination: logout, logout-all,
  terminate-all and the device-limit eviction.
\<close>

lemma terminated_record_kept:
  assumes "findById st i = Some s" and "\<not> isActive s" and "distinct (map sid st)"
  shows "fst (logout st a now) = (200, ''Logged out successfully'')
       \<and> findById (snd (logout st a now)) i = Some s
       \<and> findById (snd (logoutAll st u now)) i = Some s
       \<and> findById (terminateAllForUser st u r now) i = Some s
       \<and> findById (fst (terminateOldestSession st u now)) i = Some s"
  using logout_reply logout_keeps [OF assms] terminateOldest_keeps [OF assms]
    findById_terminateAll_inactive [OF assms(1,2)]
  by (simp add: logoutAll_def)

text \<open>
  C8. Termination is meant to be idempotent: a second termination is not an error and
  leaves the reason and the timestamp of the first. The administrator's
  \<open>terminateSession\<close> breaks this. The holder logs out at time 1; a second logout at
  time 2 changes nothing; but when an administrator then terminates the same session by id
  at time 3, the handler answers 200 and the record's reason becomes \<open>admin_action\<close> and
  its timestamp 3: the handler finds the session by id without asking whether it is still
  active.
\<close>

theorem terminateSession_restamps:
  "map terminatedReason (snd (logout [example_session] (Some ''Bearer t'') 1)) = [Some Logout]
   \<and> map terminatedAt (snd (logout [example_session] (Some ''Bearer t'') 1)) = [Some 1]
   \<and> snd (logout (snd (logout [example_session] (Some ''Bearer t'') 1)) (Some ''Bearer t'') 2)
       = snd (logout [example_session] (Some ''Bearer t'') 1)
   \<and> fst (terminateSession (snd (logout [example_session] (Some ''Bearer t'') 1)) ''admin'' 0 3)
       = (200, ''Session terminated'')
   \<and> map terminatedReason
        (snd (terminateSession (snd (logout [example_session] (Some ''Bearer t'') 1)) ''admin'' 0 3))
       = [Some AdminAction]
   \<and> map terminatedAt
        (snd (terminateSession (snd (logout [example_session] (Some ''Bearer t'') 1)) ''admin'' 0 3))
       = [Some 3]"
  by (simp add: logout_def terminateSession_def findById_def save_def terminate_def
      example_session_def startsWith_def)

section \<open>Passwords\<close>

text \<open>The sixteen digits, checked one by one.\<close>

lemma hex_table:
  "list_all (\<lambda>k. hexDigit (hexChar k) = Some k \<and> hexChar k \<noteq> CHR '':'') [0..<16]"
  by code_simp

lemma hexDigit_hexChar: "n < 16 \<Longrightarrow> hexDigit (hexChar n) = Some n"
  using hex_table by (simp add: list_all_iff)

lemma hexChar_not_colon: "n < 16 \<Longrightarrow> hexChar n \<noteq> CHR '':''"
  using hex_table by (simp add: list_all_iff)

lemma unat_byte_div16: "unat (w :: byte) div 16 < 16"
  using unsigned_less [of w, where 'a = nat] by simp

lemma fromHex_toHex: "fromHex (toHex b) = b"
  by (induction b) (simp_all add: toHex_def hexDigit_hexChar unat_byte_div16)

lemma colon_notin_toHex: "CHR '':'' \<notin> set (toHex b)"
  by (induction b)
    (simp_all add: toHex_def hexChar_not_colon [symmetric] hexChar_not_colon unat_byte_div16)

lemma length_toHex: "length (toHex b) = 2 * length b"
  by (induction b) (simp_all add: toHex_def)

lemma splitOn_nosep: "c \<notin> set a \<Longrightarrow> splitOn c a = [a]"
  by (induction a) auto

lemma splitOn_sep: "c \<notin> set a \<Longrightarrow> splitOn c (a @ c # b) = a # splitOn c b"
  by (induction a) auto

lemma length_randomBytes: "length (fst (randomBytes n rng)) = n"
  by (simp add: randomBytes_def)

text \<open>Verifying against a freshly stored form compares the two derived digests.\<close>

lemma verifyPassword_hashPassword:
  "verifyPassword P p' (hashPassword P p rng)
     = timingSafeEqual (pbkdf2Sync P (utf8 p') (fst (randomBytes 16 rng)) 100000 64)
         (pbkdf2Sync P (utf8 p) (fst (randomBytes 16 rng)) 100000 64)"
  by (simp add: verifyPassword_def hashPassword_def Let_def split_def
      splitOn_sep splitOn_nosep colon_notin_toHex fromHex_toHex)

text \<open>
  C9. Let PBKDF2 return as many bytes as it is asked for. Then for every password \<open>p\<close> the
  stored form is \<open>hex(salt) : hex(digest)\<close>, where the salt is the 16 bytes drawn from the
  random source and the digest has 64 bytes; verifying \<open>p\<close> against it gives true, and
  verifying any \<open>p'\<close> whose derived digest differs gives false.
\<close>

theorem password_roundtrip:
  assumes len: "\<forall>pw salt. length (pbkdf2Sync P pw salt 100000 64) = 64"
  shows "hashPassword P p rng
           = toHex (fst (randomBytes 16 rng)) @ '':''
             @ toHex (pbkdf2Sync P (utf8 p) (fst (randomBytes 16 rng)) 100000 64)
       \<and> length (fst (randomBytes 16 rng)) = 16
       \<and> length (pbkdf2Sync P (utf8 p) (fst (randomBytes 16 rng)) 100000 64) = 64
       \<and> verifyPassword P p (hashPassword P p rng) = Some True
       \<and> (\<forall>p'. pbkdf2Sync P (utf8 p') (fst (randomBytes 16 rng)) 100000 64
                 \<noteq> pbkdf2Sync P (utf8 p) (fst (randomBytes 16 rng)) 100000 64
              \<longrightarrow> verifyPassword P p' (hashPassword P p rng) = Some False)"
  using len
  by (simp add: verifyPassword_hashPassword timingSafeEqual_def length_randomBytes)
     (simp add: hashPassword_def split_def Let_def)

theorem password_roundtrip_witness:
  "verifyPassword demoPlatform ''secret'' (hashPassword demoPlatform ''secret'' demoEntropy)
     = Some True
   \<and> verifyPassword demoPlatform ''Secret'' (hashPassword demoPlatform ''secret'' demoEntropy)
     = Some False"
proof -
  have len: "\<forall>pw salt. length (pbkdf2Sync demoPlatform pw salt 100000 64) = 64"
    by (auto simp: demoPlatform_def demoPbkdf2_def)
  have ne: "pbkdf2Sync demoPlatform (utf8 ''Secret'') (fst (randomBytes 16 demoEntropy)) 100000 64
          \<noteq> pbkdf2Sync demoPlatform (utf8 ''secret'') (fst (randomBytes 16 demoEntropy)) 100000 64"
    by (simp add: demoPlatform_def demoPbkdf2_def utf8_def)
  show ?thesis
    using password_roundtrip [OF len, of "''secret''" demoEntropy] ne by blast
qed

section \<open>Bearer validation\<close>

lemma startsWith_append [simp]: "startsWith (p @ s) p"
  by (simp add: startsWith_def)

lemma removeFirst_prefix: "p \<noteq> [] \<Longrightarrow> removeFirst p (p @ s) = s"
  by (cases p) (simp_all add: startsWith_def)

lemma startsWith_removeFirst:
  assumes "p \<noteq> []" and "startsWith h p"
  shows "h = p @ removeFirst p h"
proof (cases h)
  case Nil
  then show ?thesis using assms by (simp add: startsWith_def)
next
  case (Cons a list)
  then have "removeFirst p h = drop (length p) h" "take (length p) h = p"
    using assms by (simp_all add: startsWith_def)
  then show ?thesis by (metis append_take_drop_id)
qed

text \<open>The middleware on a well-formed header.\<close>

lemma protect_bearer:
  "protect P st (Some (''Bearer '' @ token)) now =
     (case validateSessionToken P now token of
        None \<Rightarrow> Inl (401, ''Invalid or expired token'')
      | Some decoded \<Rightarrow>
          (case find (\<lambda>s. sessionToken s = token \<and> isActive s \<and> now < expiresAt s) st of
             None \<Rightarrow> Inl (401, ''Session expired or invalidated'')
           | Some s \<Rightarrow> Inr (decoded, updateActivity now s, save st (updateActivity now s))))"
  unfolding protect_def
  using removeFirst_prefix [of "''Bearer ''" token] startsWith_append [of "''Bearer ''" token]
  by (simp del: removeFirst.simps startsWith_append)

lemma demoToken_valid: "validateSessionToken demoPlatform 5 demoToken = Some demoClaims"
  by code_simp

lemma junk_token_invalid: "validateSessionToken demoPlatform 5 ''t'' = None"
  by code_simp

text \<open>
  C4. A request passes \<open>protect\<close> only if its token validates cryptographically and the
  collection holds a session with that token that is active and unexpired. A token that
  validates but has no such record (logged out, revoked, evicted, expired) is answered
  with 401, and so is a token that fails validation, whatever the collection holds.
\<close>

theorem protect_needs_both:
  "(protect P st h now = Inr (decoded, s', st') \<longrightarrow>
      (\<exists>token s. h = Some (''Bearer '' @ token)
         \<and> validateSessionToken P now token = Some decoded
         \<and> s \<in> set st \<and> sessionToken s = token \<and> isActive s \<and> now < expiresAt s
         \<and> s' = updateActivity now s))
   \<and> (validateSessionToken P now token = Some c
        \<and> (\<forall>s \<in> set st. sessionToken s = token \<longrightarrow> \<not> isActive s \<or> expiresAt s \<le> now)
      \<longrightarrow> protect P st (Some (''Bearer '' @ token)) now
            = Inl (401, ''Session expired or invalidated''))
   \<and> (validateSessionToken P now token = None
      \<longrightarrow> protect P st (Some (''Bearer '' @ token)) now = Inl (401, ''Invalid or expired token''))"
proof (intro conjI impI)
  assume a: "protect P st h now = Inr (decoded, s', st')"
  then obtain hd where h: "h = Some hd" and sw: "startsWith hd ''Bearer ''"
    by (auto simp: protect_def split: option.splits if_splits)
  define token where "token = removeFirst ''Bearer '' hd"
  have hd: "hd = ''Bearer '' @ token"
    unfolding token_def using startsWith_removeFirst [OF _ sw] by simp
  from a obtain s where v: "validateSessionToken P now token = Some decoded"
    and f: "find (\<lambda>s. sessionToken s = token \<and> isActive s \<and> now < expiresAt s) st = Some s"
    and s': "s' = updateActivity now s"
    unfolding h hd protect_bearer by (auto split: option.splits)
  from f have "s \<in> set st \<and> sessionToken s = token \<and> isActive s \<and> now < expiresAt s"
    by (auto simp: find_Some_iff)
  with v s' h hd show "\<exists>token s. h = Some (''Bearer '' @ token)
         \<and> validateSessionToken P now token = Some decoded
         \<and> s \<in> set st \<and> sessionToken s = token \<and> isActive s \<and> now < expiresAt s
         \<and> s' = updateActivity now s" by blast
next
  assume a: "validateSessionToken P now token = Some c
        \<and> (\<forall>s \<in> set st. sessionToken s = token \<longrightarrow> \<not> isActive s \<or> expiresAt s \<le> now)"
  then have "find (\<lambda>s. sessionToken s = token \<and> isActive s \<and> now < expiresAt s) st = None"
    by (auto simp: find_None_iff)
  with a show "protect P st (Some (''Bearer '' @ token)) now
                 = Inl (401, ''Session expired or invalidated'')"
    unfolding protect_bearer by simp
next
  assume "validateSessionToken P now token = None"
  then show "protect P st (Some (''Bearer '' @ token)) now = Inl (401, ''Invalid or expired token'')"
    unfolding protect_bearer by simp
qed

theorem protect_needs_both_witness:
  "validateSessionToken demoPlatform 5 demoToken = Some demoClaims
   \<and> protect demoPlatform [example_session\<lparr>sessionToken := demoToken, isActive := False\<rparr>]
        (Some (''Bearer '' @ demoToken)) 5 = Inl (401, ''Session expired or invalidated'')
   \<and> protect demoPlatform [example_session] (Some (''Bearer '' @ ''t'')) 5
        = Inl (401, ''Invalid or expired token'')
   \<and> protect demoPlatform [example_session\<lparr>sessionToken := demoToken\<rparr>]
        (Some (''Bearer '' @ demoToken)) 5
        = Inr (demoClaims, example_session\<lparr>sessionToken := demoToken, lastActivityAt := 5\<rparr>,
               [example_session\<lparr>sessionToken := demoToken, lastActivityAt := 5\<rparr>])
   \<and> (\<exists>s \<in> set [example_session\<lparr>sessionToken := demoToken\<rparr>].
         sessionToken s = demoToken \<and> isActive s \<and> 5 < expiresAt s)"
proof -
  note v = demoToken_valid
  have ok: "protect demoPlatform [example_session\<lparr>sessionToken := demoToken\<rparr>]
        (Some (''Bearer '' @ demoToken)) 5
        = Inr (demoClaims, example_session\<lparr>sessionToken := demoToken, lastActivityAt := 5\<rparr>,
               [example_session\<lparr>sessionToken := demoToken, lastActivityAt := 5\<rparr>])"
    unfolding protect_bearer v
    by (simp add: example_session_def updateActivity_def save_def)
  have gone: "protect demoPlatform [example_session\<lparr>sessionToken := demoToken, isActive := False\<rparr>]
        (Some (''Bearer '' @ demoToken)) 5 = Inl (401, ''Session expired or invalidated'')"
    using v protect_needs_both [where P = demoPlatform and now = 5 and token = demoToken
        and c = demoClaims
        and st = "[example_session\<lparr>sessionToken := demoToken, isActive := False\<rparr>]"]
    by simp
  have bad: "protect demoPlatform [example_session] (Some (''Bearer '' @ ''t'')) 5
        = Inl (401, ''Invalid or expired token'')"
    using junk_token_invalid
      protect_needs_both [where P = demoPlatform and now = 5 and token = "''t''"
        and st = "[example_session]"]
    by blast
  have "\<exists>token s. Some (''Bearer '' @ demoToken) = Some (''Bearer '' @ token)
         \<and> validateSessionToken demoPlatform 5 token = Some demoClaims
         \<and> s \<in> set [example_session\<lparr>sessionToken := demoToken\<rparr>]
         \<and> sessionToken s = token \<and> isActive s \<and> 5 < expiresAt s
         \<and> example_session\<lparr>sessionToken := demoToken, lastActivityAt := 5\<rparr> = updateActivity 5 s"
    using ok protect_needs_both [where P = demoPlatform and now = 5
        and st = "[example_session\<lparr>sessionToken := demoToken\<rparr>]"
        and h = "Some (''Bearer '' @ demoToken)"]
    by blast
  then have "\<exists>s \<in> set [example_session\<lparr>sessionToken := demoToken\<rparr>].
         sessionToken s = demoToken \<and> isActive s \<and> 5 < expiresAt s"
    by auto
  with v ok gone bad show ?thesis by blast
qed

text \<open>
  C10. If every record with the request's token has an \<open>expiresAt\<close> that is not after the
  current time, \<open>protect\<close> answers 401, whatever the records' \<open>neverExpires\<close> flags say:
  the lookup filters on the token, the active flag and \<open>expiresAt\<close> only.
\<close>

theorem protect_expired_record:
  assumes "\<forall>s \<in> set st. sessionToken s = token \<longrightarrow> expiresAt s \<le> now"
  shows "protect P st (Some (''Bearer '' @ token)) now
           = Inl (401, if validateSessionToken P now token = None
                       then ''Invalid or expired token''
                       else ''Session expired or invalidated'')"
proof -
  from assms
  have "find (\<lambda>s. sessionToken s = token \<and> isActive s \<and> now < expiresAt s) st = None"
    by (auto simp: find_None_iff)
  then show ?thesis unfolding protect_bearer by (simp split: option.splits)
qed

theorem protect_expired_record_witness:
  "neverExpires (example_session\<lparr>sessionToken := demoToken, neverExpires := True, expiresAt := 3\<rparr>)
   \<and> isActive (example_session\<lparr>sessionToken := demoToken, neverExpires := True, expiresAt := 3\<rparr>)
   \<and> validateSessionToken demoPlatform 5 demoToken = Some demoClaims
   \<and> protect demoPlatform
        [example_session\<lparr>sessionToken := demoToken, neverExpires := True, expiresAt := 3\<rparr>]
        (Some (''Bearer '' @ demoToken)) 5
       = Inl (401, ''Session expired or invalidated'')"
  using demoToken_valid
    protect_expired_record [of
      "[example_session\<lparr>sessionToken := demoToken, neverExpires := True, expiresAt := 3\<rparr>]"
      demoToken 5 demoPlatform]
  by (simp add: example_session_def)

section \<open>Key files\<close>

lemma fromUtf8_utf8: "fromUtf8 (utf8 s) = s"
proof -
  have "char_of (unat (word_of_nat (of_char c :: nat) :: byte)) = c" for c
    by (simp add: unat_of_nat take_bit_nat_eq_self_iff)
  then show ?thesis by (simp add: utf8_def fromUtf8_def map_idI)
qed

lemma randomBytes_split:
  "randomBytes n rng = (map rng [0..<n], \<lambda>i. rng (i + n))"
  by (simp add: randomBytes_def)

lemma map_shift: "map (\<lambda>i. rng (i + k)) [0..<n] = map rng [k..<k + n]"
  by (induction n) (simp_all add: add.commute)

lemma magic_bytes: "fromUtf8 (take 8 (utf8 ''ARECAKEY'' @ r)) = ''ARECAKEY''"
  using fromUtf8_utf8 [of "''ARECAKEY''"] by (simp add: utf8_def)

lemma generateKeyFile_parts:
  "generateKeyFile P f now rng =
     utf8 ''ARECAKEY'' @ writeUInt16BE 1 @ keyFileSalt rng @ keyFileIv rng
       @ gcmTag P (deriveKey P (keyFileSalt rng)) (keyFileIv rng) (keyFileCiphertext P f now rng)
       @ generateHMAC P (keyFileCiphertext P f now rng) (deriveKey P (keyFileSalt rng @ utf8 ''hmac''))
       @ keyFileCiphertext P f now rng"
  using map_shift [of rng 16 32] map_shift [of "\<lambda>i. rng (i + 16)" 32 16]
  by (simp add: generateKeyFile_def randomUUID_def randomBytes_def gcmEncrypt_def Let_def
      keyFileSalt_def keyFileIv_def keyFileCiphertext_def keyFileId_def add.commute add.left_commute)

lemma validateKeyFile_layout:
  assumes "length salt = 32" "length iv = 16" "length tag = 16" "length sg = 32" "enc \<noteq> []"
  shows "validateKeyFile P now (utf8 ''ARECAKEY'' @ writeUInt16BE 1 @ salt @ iv @ tag @ sg @ enc) =
     (case verifyHMAC P enc sg (deriveKey P (salt @ utf8 ''hmac'')) of
        None \<Rightarrow> Inl BufferLength
      | Some False \<Rightarrow> Inl SignatureMismatch
      | Some True \<Rightarrow>
         (case gcmDecrypt P (deriveKey P salt) iv tag enc of
            None \<Rightarrow> Inl AuthenticationFailed
          | Some decrypted \<Rightarrow>
              (case parsePayload P (fromUtf8 decrypted) of
                 None \<Rightarrow> Inl PayloadSyntax
               | Some payload \<Rightarrow>
                   if kp_role payload \<noteq> ''superadmin'' \<and> dateBefore P (kp_expiresAt payload) now
                   then Inl KeyFileExpired
                   else Inr payload)))"
proof -
  let ?buf = "utf8 ''ARECAKEY'' @ writeUInt16BE 1 @ salt @ iv @ tag @ sg @ enc"
  have len: "\<not> length ?buf < 107" using assms by (cases enc) (simp_all add: utf8_def writeUInt16BE_def)
  have "slice ?buf 0 8 = utf8 ''ARECAKEY''" by (simp add: slice_def utf8_def)
  then have m: "fromUtf8 (slice ?buf 0 8) = ''ARECAKEY''" by (simp only: fromUtf8_utf8)
  have v: "readUInt16BE ?buf 8 = 1" by (simp add: readUInt16BE_def utf8_def writeUInt16BE_def)
  have s: "slice ?buf 10 42 = salt" "slice ?buf 42 58 = iv" "slice ?buf 58 74 = tag"
     "slice ?buf 74 106 = sg" "drop 106 ?buf = enc"
    using assms by (simp_all add: slice_def utf8_def writeUInt16BE_def)
  show ?thesis unfolding validateKeyFile_def Let_def s using len m v
    by (simp only: if_False if_True not_not refl simp_thms)
qed


lemma length_keyFileSalt [simp]: "length (keyFileSalt rng) = 32"
  by (simp add: keyFileSalt_def)

lemma length_keyFileIv [simp]: "length (keyFileIv rng) = 16"
  by (simp add: keyFileIv_def)

lemma length_utf8 [simp]: "length (utf8 s) = length s"
  by (simp add: utf8_def)

lemma timingSafeEqual_same [simp]: "timingSafeEqual a a = Some True"
  by (simp add: timingSafeEqual_def)

lemma keyFileCiphertext_nonempty:
  assumes "cipherLaws P" and "stringifyPayload P (keyPayload P f now (keyFileId P rng)) \<noteq> []"
  shows "keyFileCiphertext P f now rng \<noteq> []"
proof -
  have "length (keyFileCiphertext P f now rng)
          = length (stringifyPayload P (keyPayload P f now (keyFileId P rng)))"
    using assms(1) by (simp add: keyFileCiphertext_def cipherLaws_def)
  then show ?thesis using assms(2) by auto
qed

lemma validate_generated:
  assumes laws: "cipherLaws P" and codec: "payloadCodec P (keyPayload P f now (keyFileId P rng))"
  shows "validateKeyFile P now' (generateKeyFile P f now rng) =
           (if kp_role (keyPayload P f now (keyFileId P rng)) \<noteq> ''superadmin''
               \<and> dateBefore P (kp_expiresAt (keyPayload P f now (keyFileId P rng))) now'
            then Inl KeyFileExpired
            else Inr (keyPayload P f now (keyFileId P rng)))"
proof -
  let ?p = "keyPayload P f now (keyFileId P rng)"
  let ?enc = "keyFileCiphertext P f now rng"
  have ne: "?enc \<noteq> []"
    using keyFileCiphertext_nonempty [OF laws] codec by (simp add: payloadCodec_def)
  have tag: "length (gcmTag P (deriveKey P (keyFileSalt rng)) (keyFileIv rng) ?enc) = 16"
    and sg: "length (generateHMAC P ?enc (deriveKey P (keyFileSalt rng @ utf8 ''hmac''))) = 32"
    using laws by (simp_all add: cipherLaws_def generateHMAC_def)
  have dec: "gcmCtr P (deriveKey P (keyFileSalt rng)) (keyFileIv rng) ?enc
               = utf8 (stringifyPayload P ?p)"
    using laws by (simp add: keyFileCiphertext_def cipherLaws_def)
  have parse: "parsePayload P (stringifyPayload P ?p) = Some ?p"
    using codec by (simp add: payloadCodec_def)
  show ?thesis
    unfolding generateKeyFile_parts
    by (subst validateKeyFile_layout [OF length_keyFileSalt length_keyFileIv tag sg ne])
      (simp add: verifyHMAC_def gcmDecrypt_def dec fromUtf8_utf8 parse)
qed


lemma length_tokenIv [simp]: "length (tokenIv rng) = 16"
  by (simp add: tokenIv_def)

lemma generateSessionToken_parts:
  "generateSessionToken P sd e now rng = base64urlEncode P (tokenBuffer P sd e now rng)"
  using map_shift [of rng 16 16]
  by (simp add: generateSessionToken_def tokenBuffer_def mintedClaims_def randomUUID_def
      randomBytes_def gcmEncrypt_def Let_def tokenIv_def)

lemma validate_minted:
  assumes laws: "cipherLaws P"
    and tr: "transportCodec P (tokenBuffer P sd e now rng)"
    and codec: "claimsCodec P (mintedClaims P sd e now rng)"
  shows "validateSessionToken P now' (generateSessionToken P sd e now rng) =
           (if tc_neverExpires (mintedClaims P sd e now rng) then Some (mintedClaims P sd e now rng)
            else if tc_exp (mintedClaims P sd e now rng) < now' then None
            else Some (mintedClaims P sd e now rng))"
proof -
  let ?c = "mintedClaims P sd e now rng"
  let ?enc = "gcmCtr P (sessionKey P) (tokenIv rng) (utf8 (stringifyClaims P ?c))"
  let ?tag = "gcmTag P (sessionKey P) (tokenIv rng) ?enc"
  have buf: "base64urlDecode P (generateSessionToken P sd e now rng) = tokenIv rng @ ?tag @ ?enc"
    using tr by (simp add: generateSessionToken_parts transportCodec_def tokenBuffer_def Let_def)
  have tag: "length ?tag = 16" using laws by (simp add: cipherLaws_def)
  have dec: "gcmCtr P (sessionKey P) (tokenIv rng) ?enc = utf8 (stringifyClaims P ?c)"
    using laws by (simp add: cipherLaws_def)
  have parse: "parseClaims P (stringifyClaims P ?c) = Some ?c"
    using codec by (simp add: claimsCodec_def)
  show ?thesis
    unfolding validateSessionToken_def buf
    using tag by (simp add: slice_def gcmDecrypt_def dec fromUtf8_utf8 parse)
qed



lemma upd_after: "length p = k \<Longrightarrow> k \<le> i \<Longrightarrow> (p @ r)[i := b] = p @ r[i - k := b]"
  by (simp add: list_update_append)

lemma nth_after: "length p = k \<Longrightarrow> k \<le> i \<Longrightarrow> (p @ r) ! i = r ! (i - k)"
  by (simp add: nth_append)

lemma upd_within: "i < length t \<Longrightarrow> (t @ r)[i := b] = t[i := b] @ r"
  by (simp add: list_update_append)

lemma upd_changes: "j < length t \<Longrightarrow> b \<noteq> t ! j \<Longrightarrow> t[j := b] \<noteq> t"
  by (metis nth_list_update_eq)

lemma update_tag_field:
  assumes "length m = 8" "length v = 2" "length s = 32" "length iv = 16" "length t = 16"
    and "58 \<le> i" "i < 74"
  shows "(m @ v @ s @ iv @ t @ r)[i := b] = m @ v @ s @ iv @ t[i - 58 := b] @ r"
    and "(m @ v @ s @ iv @ t @ r) ! i = t ! (i - 58)"
proof -
  have lp: "length (m @ v @ s @ iv) = 58" using assms by simp
  have j: "i - 58 < length t" using assms by arith
  have "((m @ v @ s @ iv) @ t @ r)[i := b] = (m @ v @ s @ iv) @ (t @ r)[i - 58 := b]"
    by (rule upd_after [OF lp assms(6)])
  then show "(m @ v @ s @ iv @ t @ r)[i := b] = m @ v @ s @ iv @ t[i - 58 := b] @ r"
    using upd_within [OF j, of r b] by simp
  have "((m @ v @ s @ iv) @ t @ r) ! i = (t @ r) ! (i - 58)"
    by (rule nth_after [OF lp assms(6)])
  then show "(m @ v @ s @ iv @ t @ r) ! i = t ! (i - 58)"
    using j by (simp add: nth_append)
qed

lemma update_hmac_field:
  assumes "length m = 8" "length v = 2" "length s = 32" "length iv = 16" "length t = 16"
    and "length g = 32" and "74 \<le> i" "i < 106"
  shows "(m @ v @ s @ iv @ t @ g @ r)[i := b] = m @ v @ s @ iv @ t @ g[i - 74 := b] @ r"
    and "(m @ v @ s @ iv @ t @ g @ r) ! i = g ! (i - 74)"
proof -
  have lp: "length (m @ v @ s @ iv @ t) = 74" using assms by simp
  have j: "i - 74 < length g" using assms by arith
  have "((m @ v @ s @ iv @ t) @ g @ r)[i := b] = (m @ v @ s @ iv @ t) @ (g @ r)[i - 74 := b]"
    by (rule upd_after [OF lp assms(7)])
  then show "(m @ v @ s @ iv @ t @ g @ r)[i := b] = m @ v @ s @ iv @ t @ g[i - 74 := b] @ r"
    using upd_within [OF j, of r b] by simp
  have "((m @ v @ s @ iv @ t) @ g @ r) ! i = (g @ r) ! (i - 74)"
    by (rule nth_after [OF lp assms(7)])
  then show "(m @ v @ s @ iv @ t @ g @ r) ! i = g ! (i - 74)"
    using j by (simp add: nth_append)
qed

lemma update_ciphertext:
  assumes "length m = 8" "length v = 2" "length s = 32" "length iv = 16" "length t = 16"
    and "length g = 32" and "106 \<le> i"
  shows "(m @ v @ s @ iv @ t @ g @ r)[i := b] = m @ v @ s @ iv @ t @ g @ r[i - 106 := b]"
proof -
  have lp: "length (m @ v @ s @ iv @ t @ g) = 106" using assms by simp
  have "((m @ v @ s @ iv @ t @ g) @ r)[i := b] = (m @ v @ s @ iv @ t @ g) @ r[i - 106 := b]"
    by (rule upd_after [OF lp assms(7)])
  then show ?thesis by simp
qed

lemma length_magic: "length (utf8 ''ARECAKEY'') = 8" and length_version: "length (writeUInt16BE 1) = 2"
  by (simp_all add: writeUInt16BE_def)

text \<open>
  C3. Take a generated artifact and replace one byte at offset \<open>i\<close> by a different value.
  In the auth-tag field (58 to 73) validation fails in the decipher; in the HMAC field
  (74 to 105) it fails with a signature mismatch; in the ciphertext (from 106) it fails
  with one of the two, provided the changed ciphertext does not collide with the original
  under both HMAC-SHA-256 and the GCM tag. It never returns a payload.
\<close>

theorem tamper_detected:
  assumes laws: "cipherLaws P"
    and nonempty: "stringifyPayload P (keyPayload P f now (keyFileId P rng)) \<noteq> []"
    and i: "58 \<le> i" "i < length (generateKeyFile P f now rng)"
    and b: "b \<noteq> generateKeyFile P f now rng ! i"
    and nocoll: "106 \<le> i \<longrightarrow>
        generateHMAC P ((keyFileCiphertext P f now rng)[i - 106 := b])
            (deriveKey P (keyFileSalt rng @ utf8 ''hmac''))
          \<noteq> generateHMAC P (keyFileCiphertext P f now rng)
               (deriveKey P (keyFileSalt rng @ utf8 ''hmac''))
        \<or> gcmTag P (deriveKey P (keyFileSalt rng)) (keyFileIv rng)
            ((keyFileCiphertext P f now rng)[i - 106 := b])
          \<noteq> gcmTag P (deriveKey P (keyFileSalt rng)) (keyFileIv rng)
               (keyFileCiphertext P f now rng)"
  shows "(i < 74 \<longrightarrow>
            validateKeyFile P now' ((generateKeyFile P f now rng)[i := b]) = Inl AuthenticationFailed)
       \<and> (74 \<le> i \<and> i < 106 \<longrightarrow>
            validateKeyFile P now' ((generateKeyFile P f now rng)[i := b]) = Inl SignatureMismatch)
       \<and> (106 \<le> i \<longrightarrow>
            validateKeyFile P now' ((generateKeyFile P f now rng)[i := b]) = Inl SignatureMismatch
            \<or> validateKeyFile P now' ((generateKeyFile P f now rng)[i := b])
                = Inl AuthenticationFailed)"
proof -
  let ?salt = "keyFileSalt rng" and ?iv = "keyFileIv rng"
  let ?enc = "keyFileCiphertext P f now rng"
  let ?hk = "deriveKey P (?salt @ utf8 ''hmac'')"
  let ?tag = "gcmTag P (deriveKey P ?salt) ?iv ?enc"
  let ?sg = "generateHMAC P ?enc ?hk"
  have ne: "?enc \<noteq> []" by (rule keyFileCiphertext_nonempty [OF laws nonempty])
  have tag: "length ?tag = 16" and sg: "length ?sg = 32"
    using laws by (simp_all add: cipherLaws_def generateHMAC_def)
  note kf = generateKeyFile_parts [of P f now rng]
  note lens = length_magic length_version length_keyFileSalt length_keyFileIv
  show ?thesis
  proof (intro conjI impI)
    assume lt: "i < 74"
    have upd: "(generateKeyFile P f now rng)[i := b]
                 = utf8 ''ARECAKEY'' @ writeUInt16BE 1 @ ?salt @ ?iv @ ?tag[i - 58 := b] @ ?sg @ ?enc"
      unfolding kf by (rule update_tag_field(1) [OF lens tag i(1) lt])
    have "(generateKeyFile P f now rng) ! i = ?tag ! (i - 58)"
      unfolding kf by (rule update_tag_field(2) [OF lens tag i(1) lt])
    moreover have "i - 58 < length ?tag" using i(1) lt tag by arith
    ultimately have neq: "?tag[i - 58 := b] \<noteq> ?tag"
      using b by (intro upd_changes) simp_all
    have tl: "length (?tag[i - 58 := b]) = 16" using tag by simp
    show "validateKeyFile P now' ((generateKeyFile P f now rng)[i := b]) = Inl AuthenticationFailed"
      unfolding upd
      by (subst validateKeyFile_layout [OF length_keyFileSalt length_keyFileIv tl sg ne])
        (simp add: verifyHMAC_def gcmDecrypt_def neq)
  next
    assume rg: "74 \<le> i \<and> i < 106"
    have upd: "(generateKeyFile P f now rng)[i := b]
                 = utf8 ''ARECAKEY'' @ writeUInt16BE 1 @ ?salt @ ?iv @ ?tag @ ?sg[i - 74 := b] @ ?enc"
      unfolding kf using rg by (intro update_hmac_field(1) [OF lens tag sg]) simp_all
    have "(generateKeyFile P f now rng) ! i = ?sg ! (i - 74)"
      unfolding kf using rg by (intro update_hmac_field(2) [OF lens tag sg]) simp_all
    moreover have "i - 74 < length ?sg" using rg sg by arith
    ultimately have "?sg[i - 74 := b] \<noteq> ?sg"
      using b by (intro upd_changes) simp_all
    then have neq: "?sg \<noteq> ?sg[i - 74 := b]" by (rule not_sym)
    have sl: "length (?sg[i - 74 := b]) = 32" using sg by simp
    show "validateKeyFile P now' ((generateKeyFile P f now rng)[i := b]) = Inl SignatureMismatch"
      unfolding upd
      by (subst validateKeyFile_layout [OF length_keyFileSalt length_keyFileIv tag sl ne])
        (simp add: verifyHMAC_def timingSafeEqual_def sg neq)
  next
    assume ge: "106 \<le> i"
    have upd: "(generateKeyFile P f now rng)[i := b]
                 = utf8 ''ARECAKEY'' @ writeUInt16BE 1 @ ?salt @ ?iv @ ?tag @ ?sg @ ?enc[i - 106 := b]"
      unfolding kf by (rule update_ciphertext [OF lens tag sg ge])
    have ne': "?enc[i - 106 := b] \<noteq> []" using ne by simp
    let ?enc' = "?enc[i - 106 := b]"
    show "validateKeyFile P now' ((generateKeyFile P f now rng)[i := b]) = Inl SignatureMismatch
            \<or> validateKeyFile P now' ((generateKeyFile P f now rng)[i := b])
                = Inl AuthenticationFailed"
    proof (cases "generateHMAC P ?enc' ?hk = ?sg")
      case False
      have "validateKeyFile P now' ((generateKeyFile P f now rng)[i := b]) = Inl SignatureMismatch"
        unfolding upd using False sg laws
        by (subst validateKeyFile_layout [OF length_keyFileSalt length_keyFileIv tag sg ne'])
          (simp add: verifyHMAC_def timingSafeEqual_def cipherLaws_def generateHMAC_def)
      then show ?thesis by simp
    next
      case True
      then have "gcmTag P (deriveKey P ?salt) ?iv ?enc' \<noteq> ?tag" using nocoll ge by simp
      then have "validateKeyFile P now' ((generateKeyFile P f now rng)[i := b])
                   = Inl AuthenticationFailed"
        unfolding upd using True sg
        by (subst validateKeyFile_layout [OF length_keyFileSalt length_keyFileIv tag sg ne'])
          (auto simp: verifyHMAC_def timingSafeEqual_def gcmDecrypt_def)
      then show ?thesis by simp
    qed
  qed
qed

lemma cipherLaws_demo: "cipherLaws demoPlatform"
proof -
  have "length (take n (xs @ ys @ replicate n z)) = n" for n and xs ys :: bytes and z
    by auto
  moreover have "map (\<lambda>x. (x XOR 90) XOR 90) d = d" for d :: bytes
    by (simp add: xor.assoc map_idI)
  ultimately show ?thesis
    by (simp add: cipherLaws_def demoPlatform_def demoHmac_def demoDigest_def demoTag_def
        demoCtr_def comp_def del: length_take take_append)
qed

lemma payloadCodec_demo:
  "payloadCodec demoPlatform
     (keyPayload demoPlatform demoUserData 4 (keyFileId demoPlatform demoEntropy))"
  by code_simp

lemma payloadCodec_demo_root:
  "payloadCodec demoPlatform
     (keyPayload demoPlatform (demoUserData\<lparr>ud_role := Some ''superadmin''\<rparr>) 4
        (keyFileId demoPlatform demoEntropy))"
  by code_simp

lemma length_generateKeyFile:
  assumes "cipherLaws P"
  shows "length (generateKeyFile P f now rng) = 106 + length (keyFileCiphertext P f now rng)"
  using assms unfolding generateKeyFile_parts
  by (simp add: cipherLaws_def generateHMAC_def writeUInt16BE_def)

lemma nth_generateKeyFile_ciphertext:
  assumes "cipherLaws P" and "106 \<le> i"
  shows "generateKeyFile P f now rng ! i = keyFileCiphertext P f now rng ! (i - 106)"
proof -
  let ?t = "gcmTag P (deriveKey P (keyFileSalt rng)) (keyFileIv rng) (keyFileCiphertext P f now rng)"
  let ?g = "generateHMAC P (keyFileCiphertext P f now rng) (deriveKey P (keyFileSalt rng @ utf8 ''hmac''))"
  have "length (utf8 ''ARECAKEY'' @ writeUInt16BE 1 @ keyFileSalt rng @ keyFileIv rng @ ?t @ ?g) = 106"
    using assms(1) by (simp add: cipherLaws_def generateHMAC_def writeUInt16BE_def)
  from nth_after [OF this assms(2)] show ?thesis
    unfolding generateKeyFile_parts by simp
qed

lemma demo_ciphertext: "\<exists>r. keyFileCiphertext demoPlatform demoUserData 4 demoEntropy = 47 # r"
  by (simp add: keyFileCiphertext_def demoPlatform_def demoCtr_def keyPayload_def
      demoStringifyPayload_def utf8_def demoUserData_def orString_def)


theorem tamper_detected_witness:
  "validateKeyFile demoPlatform 5 (demoKeyFile[106 := 0]) = Inl SignatureMismatch
   \<or> validateKeyFile demoPlatform 5 (demoKeyFile[106 := 0]) = Inl AuthenticationFailed"
proof -
  let ?enc = "keyFileCiphertext demoPlatform demoUserData 4 demoEntropy"
  obtain r where enc: "?enc = 47 # r" using demo_ciphertext by blast
  have nonempty: "stringifyPayload demoPlatform
          (keyPayload demoPlatform demoUserData 4 (keyFileId demoPlatform demoEntropy)) \<noteq> []"
    using payloadCodec_demo by (simp add: payloadCodec_def)
  have i: "58 \<le> (106::nat)" "106 < length (generateKeyFile demoPlatform demoUserData 4 demoEntropy)"
    using length_generateKeyFile [OF cipherLaws_demo, of demoUserData 4 demoEntropy] enc by simp_all
  have b: "0 \<noteq> generateKeyFile demoPlatform demoUserData 4 demoEntropy ! 106"
    using nth_generateKeyFile_ciphertext [OF cipherLaws_demo, of 106 demoUserData 4 demoEntropy] enc
    by simp
  have nocoll: "106 \<le> (106::nat) \<longrightarrow>
        generateHMAC demoPlatform (?enc[106 - 106 := 0])
            (deriveKey demoPlatform (keyFileSalt demoEntropy @ utf8 ''hmac''))
          \<noteq> generateHMAC demoPlatform ?enc
               (deriveKey demoPlatform (keyFileSalt demoEntropy @ utf8 ''hmac''))
        \<or> gcmTag demoPlatform (deriveKey demoPlatform (keyFileSalt demoEntropy)) (keyFileIv demoEntropy)
            (?enc[106 - 106 := 0])
          \<noteq> gcmTag demoPlatform (deriveKey demoPlatform (keyFileSalt demoEntropy)) (keyFileIv demoEntropy)
               ?enc"
    unfolding enc by (simp add: generateHMAC_def demoPlatform_def demoHmac_def demoDigest_def)
  show ?thesis
    using tamper_detected [OF cipherLaws_demo nonempty i b nocoll, of 5]
    by (simp add: demoKeyFile_def)
qed


text \<open>
  C5. Under the cipher laws, with JSON and base64url reproducing what was written: a
  generated key file whose role is not \<open>superadmin\<close> and whose expiry date lies before the
  time of validation is rejected as expired, and one whose role is \<open>superadmin\<close> is
  accepted whatever its expiry. A minted token carries the never-expires marker exactly
  when its role is \<open>superadmin\<close>; without it the token is rejected once its \<open>exp\<close> lies
  before the time of validation, with it the token is accepted whatever \<open>exp\<close> is.
\<close>

theorem expiry_enforced:
  assumes laws: "cipherLaws P"
    and p: "p = keyPayload P f now (keyFileId P rng)"
    and c: "c = mintedClaims P sd e now rng"
  shows "(payloadCodec P p \<and> kp_role p \<noteq> ''superadmin''
            \<and> dateParse P (kp_expiresAt p) = Some t \<and> t < now'
          \<longrightarrow> validateKeyFile P now' (generateKeyFile P f now rng) = Inl KeyFileExpired)
       \<and> (payloadCodec P p \<and> kp_role p = ''superadmin''
          \<longrightarrow> validateKeyFile P now' (generateKeyFile P f now rng) = Inr p)
       \<and> tc_neverExpires c = (sd_role sd = ''superadmin'')
       \<and> (transportCodec P (tokenBuffer P sd e now rng) \<and> claimsCodec P c
            \<and> sd_role sd \<noteq> ''superadmin'' \<and> tc_exp c < now'
          \<longrightarrow> validateSessionToken P now' (generateSessionToken P sd e now rng) = None)
       \<and> (transportCodec P (tokenBuffer P sd e now rng) \<and> claimsCodec P c
            \<and> sd_role sd = ''superadmin''
          \<longrightarrow> validateSessionToken P now' (generateSessionToken P sd e now rng) = Some c)"
proof -
  have ne: "tc_neverExpires c = (sd_role sd = ''superadmin'')"
    by (simp add: c mintedClaims_def tokenClaims_def)
  show ?thesis
    using validate_generated [OF laws, of f now rng now']
      validate_minted [OF laws, of sd e now rng now'] ne
    unfolding p [symmetric] c [symmetric]
    by (auto simp: dateBefore_def)
qed

lemma tokenCodec_demo:
  "transportCodec demoPlatform (tokenBuffer demoPlatform demoSessionData (Some 5) 4 demoEntropy)"
  "claimsCodec demoPlatform (mintedClaims demoPlatform demoSessionData (Some 5) 4 demoEntropy)"
  by code_simp+

lemma tokenCodec_demo_root:
  "transportCodec demoPlatform
     (tokenBuffer demoPlatform (demoSessionData\<lparr>sd_role := ''superadmin''\<rparr>) (Some 5) 4 demoEntropy)"
  "claimsCodec demoPlatform
     (mintedClaims demoPlatform (demoSessionData\<lparr>sd_role := ''superadmin''\<rparr>) (Some 5) 4 demoEntropy)"
  by code_simp+

theorem expiry_enforced_witness:
  "validateKeyFile demoPlatform 10 demoKeyFile = Inl KeyFileExpired
   \<and> validateKeyFile demoPlatform 10 demoRootKeyFile
       = Inr (keyPayload demoPlatform (demoUserData\<lparr>ud_role := Some ''superadmin''\<rparr>) 4
                (keyFileId demoPlatform demoEntropy))
   \<and> kp_expiresAt (keyPayload demoPlatform (demoUserData\<lparr>ud_role := Some ''superadmin''\<rparr>) 4
                (keyFileId demoPlatform demoEntropy)) = ''9''
   \<and> validateSessionToken demoPlatform 10 demoToken = None
   \<and> validateSessionToken demoPlatform 10 demoRootToken
       = Some (mintedClaims demoPlatform (demoSessionData\<lparr>sd_role := ''superadmin''\<rparr>) (Some 5) 4
                 demoEntropy)
   \<and> tc_exp (mintedClaims demoPlatform (demoSessionData\<lparr>sd_role := ''superadmin''\<rparr>) (Some 5) 4
                 demoEntropy) = 9"
proof -
  have k1: "kp_role (keyPayload demoPlatform demoUserData 4 (keyFileId demoPlatform demoEntropy))
              \<noteq> ''superadmin''"
    and k2: "dateParse demoPlatform
               (kp_expiresAt (keyPayload demoPlatform demoUserData 4
                  (keyFileId demoPlatform demoEntropy))) = Some 9"
    and k3: "kp_role (keyPayload demoPlatform (demoUserData\<lparr>ud_role := Some ''superadmin''\<rparr>) 4
               (keyFileId demoPlatform demoEntropy)) = ''superadmin''"
    and k4: "kp_expiresAt (keyPayload demoPlatform (demoUserData\<lparr>ud_role := Some ''superadmin''\<rparr>) 4
                (keyFileId demoPlatform demoEntropy)) = ''9''"
    by (simp_all add: keyPayload_def demoUserData_def orString_def demoPlatform_def demoNumber_def)
  have t1: "sd_role demoSessionData \<noteq> ''superadmin''"
    and t2: "tc_exp (mintedClaims demoPlatform demoSessionData (Some 5) 4 demoEntropy) = 9"
    and t3: "tc_exp (mintedClaims demoPlatform (demoSessionData\<lparr>sd_role := ''superadmin''\<rparr>)
               (Some 5) 4 demoEntropy) = 9"
    by (simp_all add: demoSessionData_def mintedClaims_def tokenClaims_def)
  have a: "validateKeyFile demoPlatform 10 demoKeyFile = Inl KeyFileExpired"
    and b: "validateSessionToken demoPlatform 10 demoToken = None"
    using expiry_enforced [where P = demoPlatform and f = demoUserData and now = 4
        and rng = demoEntropy and t = 9 and now' = 10 and sd = demoSessionData and e = "Some 5",
        OF cipherLaws_demo refl refl]
      payloadCodec_demo k1 k2 tokenCodec_demo t1 t2
    by (simp_all add: demoKeyFile_def demoToken_def)
  have c: "validateKeyFile demoPlatform 10 demoRootKeyFile
       = Inr (keyPayload demoPlatform (demoUserData\<lparr>ud_role := Some ''superadmin''\<rparr>) 4
                (keyFileId demoPlatform demoEntropy))"
    and d: "validateSessionToken demoPlatform 10 demoRootToken
       = Some (mintedClaims demoPlatform (demoSessionData\<lparr>sd_role := ''superadmin''\<rparr>) (Some 5) 4
                 demoEntropy)"
    using expiry_enforced [where P = demoPlatform
        and f = "demoUserData\<lparr>ud_role := Some ''superadmin''\<rparr>" and now = 4
        and rng = demoEntropy and now' = 10
        and sd = "demoSessionData\<lparr>sd_role := ''superadmin''\<rparr>" and e = "Some 5",
        OF cipherLaws_demo refl refl]
      payloadCodec_demo_root k3 tokenCodec_demo_root
    by (simp_all add: demoRootKeyFile_def demoRootToken_def)
  from a b c d k4 t3 show ?thesis by simp
qed

text \<open>
  C6, as stated, fails: a key file that is too short and one with a wrong magic field are
  both answered with status 401, but each with the message of the check that failed.
\<close>

theorem login_error_counterexample:
  "fst (loginWithKeyFile demoPlatform [] [] (keyFileRequest ''AA=='') 5 demoEntropy)
     = Failure 401 ''Invalid key file: Too small''
   \<and> fst (loginWithKeyFile demoPlatform [] [] (keyFileRequest (replicate 144 CHR ''A'')) 5
           demoEntropy)
     = Failure 401 ''Invalid key file: Bad magic''"
  by code_simp

text \<open>
  C6, amended. Every failure of \<open>validateKeyFile\<close> reaches the caller of the login handler
  as status 401 with \<open>success: false\<close>, and the error text is the message of the check that
  failed; the messages of different failures differ, so the answer tells which check
  failed. Nothing is changed in the collections.
\<close>

theorem login_reports_check:
  assumes "lr_keyFile req = Some kf" and "kf \<noteq> []"
    and "validateKeyFile P now (base64Decode P kf) = Inl e"
  shows "loginWithKeyFile P users st req now rng = (Failure 401 (errorMessage e), users, st)
       \<and> (\<forall>e'. errorMessage e' = errorMessage e \<longrightarrow> e' = e)"
proof -
  have "errorMessage e \<noteq> []" by (cases e) simp_all
  moreover have "\<forall>e'. errorMessage e' = errorMessage e \<longrightarrow> e' = e"
  proof (intro allI impI)
    fix e' assume "errorMessage e' = errorMessage e"
    then show "e' = e" by (cases e; cases e') simp_all
  qed
  ultimately show ?thesis using assms by (simp add: loginWithKeyFile_def)
qed

theorem login_reports_check_witness:
  "loginWithKeyFile demoPlatform [] [] (keyFileRequest ''AA=='') 5 demoEntropy
     = (Failure 401 ''Invalid key file: Too small'', [], [])"
proof -
  have "validateKeyFile demoPlatform 5 (base64Decode demoPlatform ''AA=='') = Inl TooSmall"
    by code_simp
  from login_reports_check [OF _ _ this, of "keyFileRequest ''AA==''" "[]" "[]" demoEntropy]
  show ?thesis by (simp add: keyFileRequest_def)
qed

section \<open>Device limit\<close>

text \<open>Both login handlers create their session through the same admission steps.\<close>

lemma loginWithKeyFile_admits:
  assumes "loginWithKeyFile P users st req now rng = (LoggedIn token u' e, users', st')"
  shows "\<exists>u \<in> set users. u' = recordLogin u now
           \<and> admitSession P st u req now rng = ((token, e), st')"
  using assms
  by (auto simp: loginWithKeyFile_def findByKeyFileId_def find_Some_iff
      split: option.splits if_splits sum.splits prod.splits)

lemma loginWithPassword_admits:
  assumes "loginWithPassword P users st req now rng = (LoggedIn token u' e, users', st')"
  shows "\<exists>u \<in> set users. u' = recordLogin u now
           \<and> admitSession P st u req now rng = ((token, e), st')"
  using assms
  by (auto simp: loginWithPassword_def find_Some_iff
      split: option.splits if_splits bool.splits prod.splits)











lemma admitSession_store:
  "snd (admitSession P st u req now rng)
     = createSession (evictForDevice st u (requestFingerprint P req) now) (u_id u)
         (fst (fst (admitSession P st u req now rng))) (requestFingerprint P req)
         ((parseDeviceInfo (lr_deviceInfo req))\<lparr>di_ip := clientAddress req\<rparr>)
         (now + 86400000) now"
  by (simp add: admitSession_def Let_def requestFingerprint_def)







text \<open>The fingerprints of three example devices differ.\<close>

lemma demo_fingerprints:
  "distinct (map (requestFingerprint demoPlatform)
      [deviceRequest ''A'', deviceRequest ''B'', deviceRequest ''C''])"
  by code_simp

lemma demo_fingerprints_differ:
  "requestFingerprint demoPlatform (deviceRequest ''A'')
     \<noteq> requestFingerprint demoPlatform (deviceRequest ''B'')"
  "requestFingerprint demoPlatform (deviceRequest ''B'')
     \<noteq> requestFingerprint demoPlatform (deviceRequest ''A'')"
  "requestFingerprint demoPlatform (deviceRequest ''A'')
     \<noteq> requestFingerprint demoPlatform (deviceRequest ''C'')"
  "requestFingerprint demoPlatform (deviceRequest ''C'')
     \<noteq> requestFingerprint demoPlatform (deviceRequest ''A'')"
  "requestFingerprint demoPlatform (deviceRequest ''B'')
     \<noteq> requestFingerprint demoPlatform (deviceRequest ''C'')"
  "requestFingerprint demoPlatform (deviceRequest ''C'')
     \<noteq> requestFingerprint demoPlatform (deviceRequest ''B'')"
  using demo_fingerprints by auto

lemma admit_store:
  "admit P st u (req, now, rng)
     = createSession (evictForDevice st u (requestFingerprint P req) now) (u_id u)
         (fst (fst (admitSession P st u req now rng))) (requestFingerprint P req)
         ((parseDeviceInfo (lr_deviceInfo req))\<lparr>di_ip := clientAddress req\<rparr>)
         (now + 86400000) now"
  by (simp add: admit_def adTime_def admitSession_store)


text \<open>
  The eviction picks the oldest session that has the active flag, expired or not
  (\<^verbatim>\<open>terminateOldestSession\<close> selects on \<^verbatim>\<open>isActive\<close> alone), while the devices are counted
  over live sessions. With device limit 1, logins from device A at time 0, from device B
  just after A's session has expired and from device C one millisecond later leave two
  live sessions: the third login terminates the expired session of A, not the live one
  of B.
\<close>

lemma stale_session_evicted:
  "u_deviceLimit demoUser = 1
   \<and> map (\<lambda>s. (deviceFingerprint s = requestFingerprint demoPlatform (deviceRequest ''A''),
               createdAt s, expiresAt s, isActive s, terminatedReason s))
        (admitAll demoPlatform [] demoUser
           [(deviceRequest ''A'', 0, demoEntropy), (deviceRequest ''B'', 86400001, demoEntropy),
            (deviceRequest ''C'', 86400002, demoEntropy)])
      = [(True, 0, 86400000, False, Some DeviceLimit),
         (False, 86400001, 172800001, True, None),
         (False, 86400002, 172800002, True, None)]
   \<and> length (getActiveSessionsForUser
        (admitAll demoPlatform [] demoUser
           [(deviceRequest ''A'', 0, demoEntropy), (deviceRequest ''B'', 86400001, demoEntropy),
            (deviceRequest ''C'', 86400002, demoEntropy)])
        ''u1'' 86400002) = 2"
  by (simp add: demo_fingerprints_differ admit_store evictForDevice_def countActiveDevices_def terminateOldestSession_def
      save_def terminate_def freshId_def
      createSession_def getActiveSessionsForUser_def live_def Let_def demoUser_def)




section \<open>The record created at admission\<close>

text \<open>
  C7. For a principal with role \<open>superadmin\<close> the created record is not marked
  never-expires: it takes the schema's default \<open>false\<close> and expires 24 hours after its
  creation, like every other record; the expiry sent to the client is the same. The record
  stores the fingerprint, the parsed device metadata and the client's address.
\<close>

theorem superadmin_session_record:
  "neverExpires (last (snd (admitSession P st (u\<lparr>u_role := ''superadmin''\<rparr>) req now rng))) = False
   \<and> expiresAt (last (snd (admitSession P st (u\<lparr>u_role := ''superadmin''\<rparr>) req now rng)))
       = now + 86400000
   \<and> snd (fst (admitSession P st (u\<lparr>u_role := ''superadmin''\<rparr>) req now rng)) = now + 86400000
   \<and> deviceFingerprint (last (snd (admitSession P st (u\<lparr>u_role := ''superadmin''\<rparr>) req now rng)))
       = generateDeviceFingerprint P (case lr_deviceInfo req of None \<Rightarrow> noDevice | Some d \<Rightarrow> d)
   \<and> deviceInfo (last (snd (admitSession P st (u\<lparr>u_role := ''superadmin''\<rparr>) req now rng)))
       = (parseDeviceInfo (lr_deviceInfo req))\<lparr>di_ip := clientAddress req\<rparr>"
  by (simp add: admitSession_def Let_def createSession_def)

end
